theory Spec2Isabelle
  imports Complex_Main
begin

section \<open>Strings\<close>

text \<open>
  A Python \<open>str\<close> is modelled as a \<open>string\<close>, one \<open>char\<close> per code point; the model
  covers the strings whose code points are below 256. The characters the program
  treats specially are named here by their code.
\<close>

abbreviation (input) NL :: char where "NL \<equiv> CHR 0x0A"
abbreviation (input) CR :: char where "CR \<equiv> CHR 0x0D"
abbreviation (input) DQUOTE :: char where "DQUOTE \<equiv> CHR 0x22"
abbreviation (input) DOLLAR :: char where "DOLLAR \<equiv> CHR 0x24"
abbreviation (input) SQUOTE :: char where "SQUOTE \<equiv> CHR 0x27"
abbreviation (input) BACKSLASH :: char where "BACKSLASH \<equiv> CHR 0x5C"
abbreviation (input) BACKTICK :: char where "BACKTICK \<equiv> CHR 0x60"

text \<open>
  The exceptions of the Python runtime that the program can meet. \<open>quit()\<close> raises
  \<open>SystemExit\<close> with no exit code.
\<close>

datatype exn =
    SystemExit | KeyError | IndexError | TypeError | ValueError | OSError
  | CalledProcessError | ModuleNotFoundError | JSONDecodeError | RequestException
  | re_error | OverflowError | Exception

text \<open>\<open>str.isspace\<close>, on which \<open>str.strip()\<close> rests, for code points below 256.\<close>

definition isspace :: "char \<Rightarrow> bool" where
  "isspace c =
     (let n = (of_char c :: nat)
      in (9 \<le> n \<and> n \<le> 13) \<or> (28 \<le> n \<and> n \<le> 32) \<or> n = 133 \<or> n = 160)"

definition strip :: "string \<Rightarrow> string" where
  "strip s = rev (dropWhile isspace (rev (dropWhile isspace s)))"

text \<open>\<open>s.split(sep)\<close> for a separator of one character: never the empty list.\<close>

fun split :: "char \<Rightarrow> string \<Rightarrow> string list" where
  "split sep [] = [[]]"
| "split sep (c # r) =
     (if c = sep then [] # split sep r
      else (c # hd (split sep r)) # tl (split sep r))"

text \<open>
  \<open>s.splitlines()\<close>: the line boundaries below 256 are \<open>\n\<close>, \<open>\r\<close>, \<open>\r\n\<close>,
  \<open>\x0b\<close>, \<open>\x0c\<close>, \<open>\x1c\<close>, \<open>\x1d\<close>, \<open>\x1e\<close> and \<open>\x85\<close>; a final line break opens
  no further line, and the empty string has no line.
\<close>

definition linebreak :: "char \<Rightarrow> bool" where
  "linebreak c =
     (let n = (of_char c :: nat)
      in (10 \<le> n \<and> n \<le> 13) \<or> (28 \<le> n \<and> n \<le> 30) \<or> n = 133)"

fun splitlines_from :: "string \<Rightarrow> string \<Rightarrow> string list" where
  "splitlines_from line [] = (if line = [] then [] else [line])"
| "splitlines_from line (c # r) =
     (if c = CR \<and> r \<noteq> [] \<and> hd r = NL then line # splitlines_from [] (tl r)
      else if linebreak c then line # splitlines_from [] r
      else splitlines_from (line @ [c]) r)"

definition splitlines :: "string \<Rightarrow> string list" where
  "splitlines s = splitlines_from [] s"

text \<open>\<open>sep.join(xs)\<close>, \<open>s.ljust(n)\<close>, \<open>s.startswith(p)\<close> and \<open>str(n)\<close>.\<close>

fun join :: "string \<Rightarrow> string list \<Rightarrow> string" where
  "join sep [] = []"
| "join sep [x] = x"
| "join sep (x # y # ys) = x @ sep @ join sep (y # ys)"

definition ljust :: "nat \<Rightarrow> string \<Rightarrow> string" where
  "ljust n s = s @ replicate (n - length s) (CHR '' '')"

definition startswith :: "string \<Rightarrow> string \<Rightarrow> bool" where
  "startswith s p = (take (length p) s = p)"

fun str_nat :: "nat \<Rightarrow> string" where
  "str_nat n =
     (if n < 10 then [''0123456789'' ! n]
      else str_nat (n div 10) @ [''0123456789'' ! (n mod 10)])"

declare str_nat.simps [simp del]

definition str_int :: "int \<Rightarrow> string" where
  "str_int i = (if i < 0 then CHR ''-'' # str_nat (nat (- i)) else str_nat (nat i))"

text \<open>\<open>xs[-1]\<close>: the last element, \<open>IndexError\<close> on the empty list.\<close>

definition py_last :: "'a list \<Rightarrow> exn + 'a" where
  "py_last xs = (if xs = [] then Inl IndexError else Inr (last xs))"

text \<open>\<open>xs[0]\<close>: the first element, \<open>IndexError\<close> on the empty list.\<close>

definition py_first :: "'a list \<Rightarrow> exn + 'a" where
  "py_first xs = (case xs of [] \<Rightarrow> Inl IndexError | x # _ \<Rightarrow> Inr x)"

section \<open>The command sanitizer\<close>

text \<open>
  \<open>clean_command\<close> of \<open>shellai.py\<close>: the dictionary \<open>subs\<close> and the generator
  expression \<open>"".join(subs.get(x, x) for x in c)\<close>.
\<close>

definition subs :: "char \<rightharpoonup> string" where
  "subs = [DQUOTE \<mapsto> [BACKSLASH, DQUOTE],
           NL \<mapsto> '' '',
           DOLLAR \<mapsto> [BACKSLASH, DOLLAR],
           BACKTICK \<mapsto> [BACKSLASH, BACKTICK],
           BACKSLASH \<mapsto> [BACKSLASH, BACKSLASH]]"

definition clean_command :: "string \<Rightarrow> string" where
  "clean_command c = concat (map (\<lambda>x. case subs x of Some y \<Rightarrow> y | None \<Rightarrow> [x]) c)"

text \<open>
  \<open>clean_command\<close> of \<open>shellAI.py\<close>: the same table, except that a newline is
  replaced by the empty string.
\<close>

definition subs_shellAI :: "char \<rightharpoonup> string" where
  "subs_shellAI = [DQUOTE \<mapsto> [BACKSLASH, DQUOTE],
                   NL \<mapsto> [],
                   DOLLAR \<mapsto> [BACKSLASH, DOLLAR],
                   BACKTICK \<mapsto> [BACKSLASH, BACKTICK],
                   BACKSLASH \<mapsto> [BACKSLASH, BACKSLASH]]"

definition clean_command_shellAI :: "string \<Rightarrow> string" where
  "clean_command_shellAI c =
     concat (map (\<lambda>x. case subs_shellAI x of Some y \<Rightarrow> y | None \<Rightarrow> [x]) c)"

text \<open>
  The invariant of a sanitized command, read from left to right: a backslash escapes
  the character after it, which is a double quote, a dollar sign, a backtick or a
  backslash; a character that is not escaped is none of double quote, dollar sign,
  backtick, backslash and newline.
\<close>

definition escapable :: "char \<Rightarrow> bool" where
  "escapable c = (c = DQUOTE \<or> c = DOLLAR \<or> c = BACKTICK \<or> c = BACKSLASH)"

fun well_escaped :: "string \<Rightarrow> bool" where
  "well_escaped [] = True"
| "well_escaped [c] = (\<not> escapable c \<and> c \<noteq> NL)"
| "well_escaped (c # d # r) =
     (if c = BACKSLASH then escapable d \<and> well_escaped r
      else \<not> escapable c \<and> c \<noteq> NL \<and> well_escaped (d # r))"

text \<open>
  The substitution table as the specification words it, a function of the character;
  \<open>nl\<close> is what a newline becomes.
\<close>

definition rewrite :: "string \<Rightarrow> char \<Rightarrow> string" where
  "rewrite nl x =
     (if x = DQUOTE then [BACKSLASH, DQUOTE]
      else if x = NL then nl
      else if x = DOLLAR then [BACKSLASH, DOLLAR]
      else if x = BACKTICK then [BACKSLASH, BACKTICK]
      else if x = BACKSLASH then [BACKSLASH, BACKSLASH]
      else [x])"

section \<open>Fenced code blocks\<close>

text \<open>
  Both scripts search the response with \<open>re.findall\<close> and the flag \<open>re.DOTALL\<close>. The
  patterns are
  \<^item> \<open>shellai.py\<close>: three backticks, \<open>(?:bash|shell)?\<close>, a newline, the group \<open>(.+?)\<close>,
    a newline;
  \<^item> \<open>shellAI.py\<close>: the same up to the group, then three backticks.
  \<open>opening_fence s\<close> matches the part before the group at the head of \<open>s\<close> and returns
  what follows it. The three forms of the opening exclude each other, so backtracking
  into the optional tag never finds a second match.
\<close>

definition FENCE :: string where
  "FENCE = [BACKTICK, BACKTICK, BACKTICK]"

definition opening_fence :: "string \<Rightarrow> string option" where
  "opening_fence s =
     (if startswith s (FENCE @ ''bash'' @ [NL]) then Some (drop 8 s)
      else if startswith s (FENCE @ ''shell'' @ [NL]) then Some (drop 9 s)
      else if startswith s (FENCE @ [NL]) then Some (drop 4 s)
      else None)"

text \<open>
  The lazy group \<open>(.+?)\<close> takes one character, whatever it is, and then as few more
  as lets the rest of the pattern match. A match at the head of \<open>s\<close> is returned as the
  group and the text after the match.
\<close>

definition match_line :: "string \<Rightarrow> (string \<times> string) option" where
  "match_line s =
     (case opening_fence s of
        None \<Rightarrow> None
      | Some [] \<Rightarrow> None
      | Some (c # r) \<Rightarrow>
          if NL \<in> set r
          then Some (c # takeWhile (\<lambda>x. x \<noteq> NL) r, tl (dropWhile (\<lambda>x. x \<noteq> NL) r))
          else None)"

fun until_fence :: "string \<Rightarrow> (string \<times> string) option" where
  "until_fence [] = None"
| "until_fence (c # r) =
     (if startswith (c # r) FENCE then Some ([], drop 3 (c # r))
      else map_option (\<lambda>(g, rest). (c # g, rest)) (until_fence r))"

definition match_block :: "string \<Rightarrow> (string \<times> string) option" where
  "match_block s =
     (case opening_fence s of
        None \<Rightarrow> None
      | Some [] \<Rightarrow> None
      | Some (c # r) \<Rightarrow> map_option (\<lambda>(g, rest). (c # g, rest)) (until_fence r))"

text \<open>
  \<open>re.findall\<close>: the groups of the matches found from left to right, the search
  resuming where the last match ended (no match is empty).
\<close>

function findall_line :: "string \<Rightarrow> string list" where
  "findall_line [] = []"
| "findall_line (c # r) =
     (case match_line (c # r) of
        Some (g, rest) \<Rightarrow> g # findall_line rest
      | None \<Rightarrow> findall_line r)"
  by pat_completeness auto
termination
proof (relation "measure length")
  show "wf (measure length)" by simp
next
  fix c :: char and r x2 g rest
  assume "match_line (c # r) = Some x2" and "(g, rest) = x2"
  then have m: "match_line (c # r) = Some (g, rest)" by simp
  then obtain t where t: "opening_fence (c # r) = Some t"
    by (auto simp: match_line_def split: option.splits)
  then have "length t < length (c # r)"
    by (auto simp: opening_fence_def split: if_splits)
  moreover have "length rest < length t"
  proof -
    from m t obtain d u where "t = d # u" and "rest = tl (dropWhile (\<lambda>x. x \<noteq> NL) u)"
      by (auto simp: match_line_def split: list.splits if_splits)
    moreover have "length (dropWhile (\<lambda>x. x \<noteq> NL) u) \<le> length u"
      by (rule length_dropWhile_le)
    ultimately show ?thesis by simp
  qed
  ultimately show "(rest, c # r) \<in> measure length" by simp
next
  fix c :: char and r
  show "(r, c # r) \<in> measure length" by simp
qed

function findall_block :: "string \<Rightarrow> string list" where
  "findall_block [] = []"
| "findall_block (c # r) =
     (case match_block (c # r) of
        Some (g, rest) \<Rightarrow> g # findall_block rest
      | None \<Rightarrow> findall_block r)"
  by pat_completeness auto
termination
proof (relation "measure length")
  show "wf (measure length)" by simp
next
  fix c :: char and r x2 g rest
  assume "match_block (c # r) = Some x2" and "(g, rest) = x2"
  then have m: "match_block (c # r) = Some (g, rest)" by simp
  then obtain t where t: "opening_fence (c # r) = Some t"
    by (auto simp: match_block_def split: option.splits)
  then have "length t < length (c # r)"
    by (auto simp: opening_fence_def split: if_splits)
  moreover have "length rest < length t"
  proof -
    have shorter: "until_fence s = Some (h, k) \<Longrightarrow> length k < length s" for s h k
      by (induction s arbitrary: h k) (auto split: if_splits)
    from m t obtain d u h where "t = d # u" and "until_fence u = Some (h, rest)"
      by (auto simp: match_block_def split: list.splits)
    then show ?thesis
      using shorter [of u h rest] by simp
  qed
  ultimately show "(rest, c # r) \<in> measure length" by simp
next
  fix c :: char and r
  show "(r, c # r) \<in> measure length" by simp
qed

section \<open>Effects\<close>

text \<open>
  A Python \<open>float\<close>: a number, or one of the three values that are no number.
  \<open>float\<close>, the \<open>type\<close> of the option \<open>--delay\<close>, accepts \<open>nan\<close>, \<open>inf\<close> and \<open>-inf\<close> too.
\<close>

datatype pyfloat = Finite real | NaN | PlusInfinity | MinusInfinity

text \<open>
  A Python value as \<open>json.loads\<close> builds it; a provider's reply may hold any of them.
\<close>

datatype pyval =
    PNone
  | PBool bool
  | PInt int
  | PFloat pyfloat
  | PStr string
  | PList "pyval list"
  | PDict "(string \<times> pyval) list"

text \<open>
  What the program does to the outside, in the order it does it. \<open>Print s\<close> is
  \<open>print(s)\<close>, \<open>PrintNoEnd s\<close> is \<open>print(s, end="")\<close>, \<open>PrintValue v\<close> is \<open>print\<close> of
  a value that is no string. \<open>CheckOutput\<close> and \<open>Run\<close> are \<open>subprocess.check_output\<close>
  and \<open>subprocess.run\<close> with \<open>shell=True\<close>, once the shell is started; \<open>Sleep\<close> is
  \<open>time.sleep\<close>, once it sleeps. \<open>Post\<close> is \<open>requests.post\<close> with its URL,
  bearer token, model and messages; \<open>GenerateContent\<close>, \<open>MessagesCreate\<close> and
  \<open>CountTokens\<close> are the calls of the vendors' SDKs.
\<close>

datatype event =
    Print string
  | PrintNoEnd string
  | PrintValue pyval
  | CheckOutput string
  | Run string
  | Sleep real
  | ReadStdin
  | ReadFile string
  | OpenAppend string
  | Write string string
  | Post string string "string option" "(string \<times> string) list"
  | GenerateContent string "string option" string string
  | MessagesCreate string "string option" string string
  | CountTokens string

text \<open>
  A computation yields the events it caused and either an exception or a value.
\<close>

type_synonym 'a io = "event list \<times> (exn + 'a)"

definition ret :: "'a \<Rightarrow> 'a io" where
  "ret x = ([], Inr x)"

definition raise :: "exn \<Rightarrow> 'a io" where
  "raise e = ([], Inl e)"

definition quit :: "'a io" where
  "quit = raise SystemExit"

definition emit :: "event \<Rightarrow> unit io" where
  "emit e = ([e], Inr ())"

definition lift :: "exn + 'a \<Rightarrow> 'a io" where
  "lift r = ([], r)"

definition bind_io :: "'a io \<Rightarrow> ('a \<Rightarrow> 'b io) \<Rightarrow> 'b io" where
  "bind_io m f =
     (case m of
        (t, Inl e) \<Rightarrow> (t, Inl e)
      | (t, Inr x) \<Rightarrow> (case f x of (u, r) \<Rightarrow> (t @ u, r)))"

definition then_io :: "unit io \<Rightarrow> 'b io \<Rightarrow> 'b io" where
  "then_io m n = bind_io m (\<lambda>_. n)"

definition when_io :: "bool \<Rightarrow> unit io \<Rightarrow> unit io" where
  "when_io b m = (if b then m else ret ())"

fun emits :: "event list \<Rightarrow> unit io" where
  "emits [] = ret ()"
| "emits (e # es) = then_io (emit e) (emits es)"

text \<open>
  The exit status of the Python process: 0 when the script runs to its end or
  \<open>quit()\<close> is called, 1 when an exception reaches the top level.
\<close>

definition exit_status :: "'a io \<Rightarrow> int" where
  "exit_status m = (case snd m of Inr _ \<Rightarrow> 0 | Inl SystemExit \<Rightarrow> 0 | Inl _ \<Rightarrow> 1)"

subsection \<open>The world\<close>

text \<open>
  The answers of the outside to what the program asks of it: the environment, the
  terminal, tmux, the file system, the provider. The outcome of a library call that
  is not modelled further is taken from here as well: \<open>re_sub\<close> is the result of the two
  \<open>re.sub\<close> calls of \<open>main\<close> on the response and the command (the second compiles the
  command as a pattern), \<open>vars_args\<close> and \<open>provider_repr\<close> are \<open>str(vars(args))\<close> and
  \<open>str(provider)\<close>.
\<close>

record http_response =
  status_code :: int
  "text" :: string
  json :: "exn + pyval"

record message =
  repr :: string
  content :: "string option list"

record world =
  argv :: "string list"
  arg_input :: "string list"
  environ :: "string \<rightharpoonup> string"
  isatty :: bool
  stdin :: string
  display_message :: "exn + string"
  capture_pane :: "exn + string"
  hostnamectl :: "exn + string"
  read_file :: "string \<Rightarrow> exn + string"
  open_append :: "string \<Rightarrow> exn option"
  write_file :: "string \<Rightarrow> string \<Rightarrow> exn option"
  post :: "exn + http_response"
  genai_installed :: bool
  generate_content :: "exn + string"
  anthropic_installed :: bool
  messages_create :: "exn + message"
  count_tokens :: "exn + string"
  re_sub :: "string \<Rightarrow> string \<Rightarrow> exn + string"
  vars_args :: string
  provider_repr :: string

text \<open>
  \<open>subprocess.check_output(cmd, shell=True)\<close>. The scripts build these commands from
  fixed text and the options \<open>--target\<close> and \<open>--scrollback\<close> alone; an argument of the
  command line holds no NUL character, so \<open>ValueError\<close> for an embedded null byte does
  not arise here.
\<close>

definition check_output :: "string \<Rightarrow> exn + string \<Rightarrow> string io" where
  "check_output cmd answer = then_io (emit (CheckOutput cmd)) (lift answer)"

text \<open>
  \<open>subprocess.run(cmd, shell=True)\<close>: a command that holds a NUL character raises
  \<open>ValueError\<close> (embedded null byte) before any shell is started; otherwise the command
  runs, and its exit status is not looked at (there is no \<open>check=True\<close>).
\<close>

definition run :: "string \<Rightarrow> unit io" where
  "run cmd = (if CHR 0x00 \<in> set cmd then raise ValueError else emit (Run cmd))"

text \<open>
  \<open>time.sleep(secs)\<close>: \<open>nan\<close> raises \<open>ValueError\<close>; a length beyond the range of the timer,
  which counts nanoseconds in 64 bits, raises \<open>OverflowError\<close>, and so do \<open>inf\<close> and
  \<open>-inf\<close>; a negative length in that range raises \<open>ValueError\<close> (sleep length must be
  non-negative); only otherwise does the call sleep.
\<close>

definition sleep :: "pyfloat \<Rightarrow> unit io" where
  "sleep secs =
     (case secs of
        NaN \<Rightarrow> raise ValueError
      | PlusInfinity \<Rightarrow> raise OverflowError
      | MinusInfinity \<Rightarrow> raise OverflowError
      | Finite r \<Rightarrow>
          if r * 10 ^ 9 < - (2 ^ 63) \<or> 2 ^ 63 \<le> r * 10 ^ 9 then raise OverflowError
          else if r < 0 then raise ValueError
          else emit (Sleep r))"

definition read :: "world \<Rightarrow> string \<Rightarrow> string io" where
  "read w path = then_io (emit (ReadFile path)) (lift (read_file w path))"

text \<open>
  \<open>with open(path, 'a') as f: f.write(v)\<close>: opening may fail, writing a value that is
  no string raises \<open>TypeError\<close>, writing and closing may fail.
\<close>

definition append_file :: "world \<Rightarrow> string \<Rightarrow> pyval \<Rightarrow> unit io" where
  "append_file w path v =
     then_io (emit (OpenAppend path))
       (case open_append w path of
          Some e \<Rightarrow> raise e
        | None \<Rightarrow>
            (case v of
               PStr s \<Rightarrow>
                 then_io (emit (Write path s))
                   (case write_file w path s of Some e \<Rightarrow> raise e | None \<Rightarrow> ret ())
             | _ \<Rightarrow> raise TypeError))"

definition print_value :: "pyval \<Rightarrow> unit io" where
  "print_value v = (case v of PStr s \<Rightarrow> emit (Print s) | _ \<Rightarrow> emit (PrintValue v))"

section \<open>The script \<open>shellai.py\<close>\<close>

text \<open>
  \<open>args\<close> is the namespace that \<open>parser.parse_known_args()\<close> returns, the defaults of
  the parser filled in.
\<close>

record args =
  auto :: bool
  recursive :: bool
  model :: "string option"
  quiet :: bool
  verbose :: bool
  debug :: bool
  target :: string
  provider :: string
  log :: "string option"
  log_commands :: "string option"
  "file" :: "string option"
  scrollback :: int
  system_prompt :: "string option"
  delay :: pyfloat

text \<open>The entry \<open>wrapper\<close> of a provider names one of three functions of the script.\<close>

datatype wrapper = W_default | W_gemini | W_anthropic

record provider_spec =
  url :: string
  api_key :: string
  default_model :: string
  wrapper :: wrapper

definition VERBOSE_LEN :: nat where
  "VERBOSE_LEN = 20"

definition dashes :: string where
  "dashes = replicate 42 (CHR ''-'')"

definition default_system_prompt :: string where
  "default_system_prompt = concat
    [''\<newline>'',
     ''You are an AI assistant within a shell command 'shellai'. You operate by reading the\<newline>'',
     ''users scrollback. You can not see interactive input. Here are your guidelines:\<newline>'',
     ''\<newline>'',
     ''DO ensure you present one command per response at the end, in a code block:\<newline>'',
     ''  ```bash\<newline>'',
     ''  command\<newline>'',
     ''  ```\<newline>'',
     ''\<newline>'',
     ''DO NOT use multiple code blocks. For multiple commands, join with semicolons:\<newline>'',
     ''  ```bash\<newline>'',
     ''  command1; command2\<newline>'',
     ''  ```\<newline>'',
     ''\<newline>'',
     ''DO precede commands with brief explanations.\<newline>'',
     ''\<newline>'',
     ''DO NOT rely on your own knowledge; use `command --help` or `man command | cat`\<newline>'',
     ''  so both you and the user understand what is happening.\<newline>'',
     ''\<newline>'',
     ''DO give a command to gather information when needed.\<newline>'',
     ''\<newline>'',
     ''Do NOT suggest interactive editors like nano or vim, or other interactive programs.\<newline>'',
     ''\<newline>'',
     ''DO use commands like `sed` or `echo >>` for file edits, or other non-interactive commands where applicable.\<newline>'',
     ''\<newline>'',
     ''DO NOT add anything after command\<newline>'',
     ''\<newline>'',
     ''If no command seems necessary, gather info or give a command for the user to explore.\<newline>'',
     ''\<newline>'',
     ''ONLY ONE COMMAND PER RESPONSE AT END OF RESPONSE\<newline>'']"

definition providers :: "string \<rightharpoonup> provider_spec" where
  "providers = map_of
    [(''openrouter'',
      \<lparr>url = ''https://openrouter.ai/api/v1/chat/completions'',
       api_key = ''OPENROUTER_API_KEY'',
       default_model = ''nousresearch/hermes-3-llama-3.1-405b:free'',
       wrapper = W_default\<rparr>),
     (''xai'',
      \<lparr>url = ''https://api.x.ai/v1/chat/completions'',
       api_key = ''XAI_API_KEY'',
       default_model = ''grok-beta'',
       wrapper = W_default\<rparr>),
     (''gemini'',
      \<lparr>url = ''https://generativelanguage.googleapis.com/v1beta/models/'',
       api_key = ''GEMINI_API_KEY'',
       default_model = ''gemini-1.5-flash-002'',
       wrapper = W_gemini\<rparr>),
     (''anthropic'',
      \<lparr>url = ''https://api.anthropic.com/v1/messages'',
       api_key = ''ANTHROPIC_API_KEY'',
       default_model = ''claude-3-5-sonnet-20240620'',
       wrapper = W_anthropic\<rparr>),
     (''together'',
      \<lparr>url = ''https://api.together.xyz/v1/chat/completions'',
       api_key = ''TOGETHER_API_KEY'',
       default_model = ''meta-llama/Llama-Vision-Free'',
       wrapper = W_default\<rparr>),
     (''openai'',
      \<lparr>url = ''https://api.openai.com/v1/chat/completions'',
       api_key = ''OPENAI_API_KEY'',
       default_model = ''gpt-4o-mini'',
       wrapper = W_default\<rparr>)]"

subsection \<open>Fetching the response\<close>

text \<open>
  \<open>get_response_debug\<close>. The expression \<open>prompt.splitlines()[0:-1][0]\<close> raises
  \<open>IndexError\<close> when the prompt has fewer than two lines.
\<close>

definition get_response_debug :: "args \<Rightarrow> string \<Rightarrow> string \<Rightarrow> string \<Rightarrow> string io" where
  "get_response_debug a prefix_input prompt sys_prompt =
     then_io
       (when_io (verbose a)
          (emits [Print ''raw input'', Print dashes,
                  Print (join [NL] (map (\<lambda>line. ''# '' @ line) (splitlines prompt))),
                  Print dashes]))
       (bind_io (lift (py_first (butlast (splitlines prompt)))) (\<lambda>first_line.
          ret (ljust VERBOSE_LEN ''sys prompt len:'' @ str_nat (length sys_prompt)
               @ ljust VERBOSE_LEN ''prompt len:'' @ str_nat (length prompt) @ [NL]
               @ ljust VERBOSE_LEN ''prefix_input:'' @ first_line @ [NL]
               @ ''test code block:'' @ [NL]
               @ FENCE @ ''bash'' @ [NL] @ '' echo '' @ [DQUOTE] @ ''$('' @ prefix_input
               @ '')'' @ [DQUOTE, NL] @ FENCE @ [NL])))"

text \<open>
  The subscripts of \<open>response_data['choices'][0]['message']['content']\<close>. A dictionary
  built from JSON has strings as keys only, so the key \<open>0\<close> is never in it.
\<close>

definition getitem :: "pyval \<Rightarrow> string \<Rightarrow> exn + pyval" where
  "getitem v k =
     (case v of
        PDict kvs \<Rightarrow> (case map_of kvs k of Some x \<Rightarrow> Inr x | None \<Rightarrow> Inl KeyError)
      | _ \<Rightarrow> Inl TypeError)"

definition getitem0 :: "pyval \<Rightarrow> exn + pyval" where
  "getitem0 v =
     (case v of
        PList xs \<Rightarrow> py_first xs
      | PStr s \<Rightarrow> (case s of [] \<Rightarrow> Inl IndexError | c # _ \<Rightarrow> Inr (PStr [c]))
      | PDict kvs \<Rightarrow> Inl KeyError
      | _ \<Rightarrow> Inl TypeError)"

definition message_content :: "pyval \<Rightarrow> exn + pyval" where
  "message_content response_data =
     (case getitem response_data ''choices'' of
        Inl e \<Rightarrow> Inl e
      | Inr choices \<Rightarrow>
          (case getitem0 choices of
             Inl e \<Rightarrow> Inl e
           | Inr choice \<Rightarrow>
               (case getitem choice ''message'' of
                  Inl e \<Rightarrow> Inl e
                | Inr msg \<Rightarrow> getitem msg ''content'')))"

definition messages :: "string \<Rightarrow> string \<Rightarrow> (string \<times> string) list" where
  "messages prompt sys_prompt = [(''system'', sys_prompt), (''user'', prompt)]"

text \<open>
  \<open>get_response_default\<close>: only \<open>KeyError\<close> is caught around the subscripts; any other
  exception, and one raised by \<open>requests.post\<close> or \<open>response.json()\<close>, goes on.
\<close>

definition get_response_default ::
  "args \<Rightarrow> world \<Rightarrow> provider_spec \<Rightarrow> string \<Rightarrow> string \<Rightarrow> string \<Rightarrow> pyval io" where
  "get_response_default a w prov key prompt sys_prompt =
     then_io (emit (Post (url prov) key (model a) (messages prompt sys_prompt)))
       (bind_io (lift (post w)) (\<lambda>response.
          if status_code response = 200 then
            bind_io (lift (json response)) (\<lambda>response_data.
              case message_content response_data of
                Inr v \<Rightarrow> ret v
              | Inl e \<Rightarrow>
                  if e = KeyError then
                    then_io (emit (Print ''unexpected output''))
                      (then_io (print_value response_data) quit)
                  else raise e)
          else
            then_io (emit (Print (''Error: '' @ str_int (status_code response))))
              (then_io (emit (Print (text response))) quit)))"

definition get_response_gemini ::
  "args \<Rightarrow> world \<Rightarrow> string \<Rightarrow> string \<Rightarrow> string \<Rightarrow> pyval io" where
  "get_response_gemini a w key prompt sys_prompt =
     (if \<not> genai_installed w
      then then_io (emit (Print ''run pip install google-generativeai'')) quit
      else then_io (emit (GenerateContent key (model a) sys_prompt prompt))
             (bind_io (lift (generate_content w)) (\<lambda>t. ret (PStr t))))"

definition get_response_anthropic ::
  "args \<Rightarrow> world \<Rightarrow> string \<Rightarrow> string \<Rightarrow> string \<Rightarrow> pyval io" where
  "get_response_anthropic a w key prompt sys_prompt =
     (if \<not> anthropic_installed w
      then then_io (emit (Print ''run pip install anthropic'')) quit
      else then_io (emit (MessagesCreate key (model a) sys_prompt prompt))
             (bind_io (lift (messages_create w)) (\<lambda>response.
                then_io (emit (Print (repr response)))
                  (bind_io (lift (py_first (content response))) (\<lambda>block.
                     case block of
                       Some t \<Rightarrow> ret (PStr t)
                     | None \<Rightarrow> raise Exception)))))"

definition call_wrapper ::
  "args \<Rightarrow> world \<Rightarrow> provider_spec \<Rightarrow> string \<Rightarrow> string \<Rightarrow> string \<Rightarrow> pyval io" where
  "call_wrapper a w prov key prompt sys_prompt =
     (case wrapper prov of
        W_default \<Rightarrow> get_response_default a w prov key prompt sys_prompt
      | W_gemini \<Rightarrow> get_response_gemini a w key prompt sys_prompt
      | W_anthropic \<Rightarrow> get_response_anthropic a w key prompt sys_prompt)"

definition get_response ::
  "args \<Rightarrow> world \<Rightarrow> provider_spec \<Rightarrow> string \<Rightarrow> string \<Rightarrow> string \<Rightarrow> string \<Rightarrow> pyval io" where
  "get_response a w prov key prefix_input prompt sys_prompt =
     then_io (when_io (verbose a) (emit (Print ''getting response'')))
       (bind_io
          (if debug a
           then bind_io (get_response_debug a prefix_input prompt sys_prompt)
                  (\<lambda>s. ret (PStr s))
           else call_wrapper a w prov key prompt sys_prompt)
          (\<lambda>response.
             then_io
               (when_io (verbose a)
                  (then_io (emits [Print ''raw response'', Print dashes])
                     (then_io (print_value response) (emit (Print dashes)))))
               (then_io
                  (case log a of
                     Some path \<Rightarrow> append_file w path response
                   | None \<Rightarrow> ret ())
                  (ret response))))"

subsection \<open>Extracting the command\<close>

definition extract_command :: "args \<Rightarrow> string \<Rightarrow> string io" where
  "extract_command a response =
     (let code_blocks = findall_line response
      in then_io
           (when_io (verbose a)
              (emit (Print (ljust VERBOSE_LEN ''code_blocks:'' @ join '':'' code_blocks))))
           (if code_blocks \<noteq> [] then
              bind_io (lift (py_last code_blocks)) (\<lambda>block.
                lift (py_last (split NL (strip block))))
            else lift (py_last (splitlines (strip response)))))"

subsection \<open>Injecting the command\<close>

definition put_command :: "args \<Rightarrow> world \<Rightarrow> string \<Rightarrow> string \<Rightarrow> unit io" where
  "put_command a w default_tmux_target command0 =
     (let command1 = clean_command command0;
          enter = (if auto a then ''ENTER'' else []);
          command =
            (if recursive a \<and> target a = default_tmux_target
             then command1 @ '';shellai '' @ join '' '' (argv w)
             else command1)
      in then_io
           (case log_commands a of
              Some path \<Rightarrow> append_file w path (PStr (command1 @ [NL]))
            | None \<Rightarrow> ret ())
           (then_io
              (when_io (recursive a \<and> target a \<noteq> default_tmux_target)
                 (then_io
                    (run (''tmux send-keys '' @ [DQUOTE] @ ''shellai ''
                          @ join '' '' (argv w) @ [DQUOTE] @ '' '' @ enter))
                    (emit (Print [NL]))))
              (then_io
                 (run (''tmux send-keys -t '' @ target a @ '' '' @ [DQUOTE]
                       @ command @ [DQUOTE]))
                 (then_io
                    (when_io (target a = default_tmux_target) (emit (Print [NL])))
                    (when_io (auto a)
                       (then_io
                          (sleep (delay a))
                          (run (''tmux send-keys -t '' @ target a @ ''  '' @ enter))))))))"

text \<open>
  \<open>main\<close>. \<open>re.findall\<close> in \<open>extract_command\<close> and \<open>re.sub\<close> raise \<open>TypeError\<close> on a
  response that is no string.
\<close>

definition main ::
  "args \<Rightarrow> world \<Rightarrow> provider_spec \<Rightarrow> string \<Rightarrow> string \<Rightarrow> string \<Rightarrow> string \<Rightarrow> string
     \<Rightarrow> unit io" where
  "main a w prov key default_tmux_target prefix_input prompt sys_prompt =
     bind_io (get_response a w prov key prefix_input prompt sys_prompt) (\<lambda>response.
       bind_io
         (case response of
            PStr s \<Rightarrow> extract_command a s
          | _ \<Rightarrow> raise TypeError)
         (\<lambda>command.
            then_io
              (when_io (\<not> quiet a)
                 (then_io (emit (Print [NL]))
                    (case response of
                       PStr s \<Rightarrow> bind_io (lift (re_sub w s command)) (\<lambda>r. emit (Print r))
                     | _ \<Rightarrow> raise TypeError)))
              (if command \<noteq> [] then put_command a w default_tmux_target command
               else ret ())))"

subsection \<open>The top level of \<open>shellai.py\<close>\<close>

text \<open>
  The input: standard input when it is no terminal; otherwise the pane captured by
  tmux, unless the environment variable \<open>TMUX\<close> is the empty string. \<open>os.getenv\<close>
  returns \<open>None\<close> for a variable that is not set, and \<open>None != ""\<close> holds.
\<close>

definition get_input :: "args \<Rightarrow> world \<Rightarrow> string \<Rightarrow> string io" where
  "get_input a w default_tmux_target =
     (if \<not> isatty w then then_io (emit ReadStdin) (ret (stdin w))
      else if environ w ''TMUX'' \<noteq> Some [] then
        bind_io
          (check_output
             (''tmux capture-pane -p -t '' @ target a @ '' -S -'' @ str_int (scrollback a))
             (capture_pane w))
          (\<lambda>input_string.
             if target a = default_tmux_target
             then ret (join [NL] (butlast (splitlines (strip input_string))))
             else ret input_string)
      else ret [])"

definition show_flags :: "args \<Rightarrow> world \<Rightarrow> unit io" where
  "show_flags a w =
     emits
       [PrintNoEnd (ljust VERBOSE_LEN ''Flags: ''),
        Print (join (ljust (VERBOSE_LEN + 2) ('','' @ [NL])) (split (CHR '','') (vars_args w))),
        PrintNoEnd (ljust VERBOSE_LEN ''Prompt prefix: ''),
        Print (join '' '' (arg_input w)),
        PrintNoEnd (ljust VERBOSE_LEN ''Provider:''),
        Print (join (ljust (VERBOSE_LEN + 2) ('','' @ [NL])) (split (CHR '','') (provider_repr w))),
        PrintNoEnd (ljust VERBOSE_LEN ''Using model:''),
        (case model a of Some m \<Rightarrow> Print m | None \<Rightarrow> PrintValue PNone),
        PrintNoEnd (ljust VERBOSE_LEN ''Target:''),
        Print (target a),
        Print [NL]]"

text \<open>
  \<open>/etc/os-release\<close>: each line, stripped, is split at \<open>=\<close> and unpacked into two
  names, which raises \<open>ValueError\<close> unless there are exactly two parts; the dictionary
  keeps the last value of a key, and \<open>NAME\<close> is looked up with the default \<open>linux\<close>.
\<close>

definition readlines :: "string \<Rightarrow> string list" where
  "readlines s =
     (let ls = split NL s
      in map (\<lambda>l. l @ [NL]) (butlast ls) @ (if last ls = [] then [] else [last ls]))"

fun system_info :: "string list \<Rightarrow> exn + (string \<times> string) list" where
  "system_info [] = Inr []"
| "system_info (x # xs) =
     (case split (CHR ''='') (strip x) of
        [f, v] \<Rightarrow> (case system_info xs of Inl e \<Rightarrow> Inl e | Inr d \<Rightarrow> Inr ((f, v) # d))
      | _ \<Rightarrow> Inl ValueError)"

definition user_os :: "world \<Rightarrow> string io" where
  "user_os w =
     bind_io (read w ''/etc/os-release'') (\<lambda>f.
       bind_io (lift (system_info (readlines f))) (\<lambda>d.
         ret (case map_of (rev d) ''NAME'' of Some v \<Rightarrow> v | None \<Rightarrow> ''linux'')))"

definition load_system_prompt :: "args \<Rightarrow> world \<Rightarrow> string io" where
  "load_system_prompt a w =
     (case system_prompt a of
        Some path \<Rightarrow>
          bind_io (read w path) (\<lambda>input_system_prompt.
            then_io (when_io (verbose a) (emit (Print ''system prompt removed'')))
              (ret input_system_prompt))
      | None \<Rightarrow> ret default_system_prompt)"

definition get_prefix_input :: "args \<Rightarrow> world \<Rightarrow> string io" where
  "get_prefix_input a w =
     (let prefix_input = (if length (arg_input w) > 0 then join '' '' (arg_input w) else [])
      in case file a of
           Some path \<Rightarrow> bind_io (read w path) (\<lambda>f. ret (prefix_input @ f))
         | None \<Rightarrow> ret prefix_input)"

text \<open>
  The module from top to bottom: \<open>default_tmux_target\<close> is computed when the module is
  loaded, then the block under \<open>if __name__ == "__main__"\<close> runs.
\<close>

definition shellai_script :: "args \<Rightarrow> world \<Rightarrow> unit io" where
  "shellai_script a0 w =
     bind_io
       (check_output (''tmux display-message -p '' @ [SQUOTE] @ ''#S:#I.#P'' @ [SQUOTE])
          (display_message w))
       (\<lambda>out.
          let default_tmux_target = strip out in
          case providers (provider a0) of
            None \<Rightarrow> raise KeyError
          | Some prov \<Rightarrow>
              bind_io (load_system_prompt a0 w) (\<lambda>input_system_prompt0.
                let a = (if model a0 = None then a0\<lparr>model := Some (default_model prov)\<rparr>
                         else a0)
                in bind_io (get_input a w default_tmux_target) (\<lambda>input_string.
                     then_io (when_io (verbose a) (show_flags a w))
                       (bind_io (user_os w) (\<lambda>name.
                          let input_system_prompt = input_system_prompt0 @ ''user os: '' @ name
                          in case environ w (api_key prov) of
                               None \<Rightarrow>
                                 then_io
                                   (emit (Print (''need '' @ api_key prov
                                                 @ '' environment variable'')))
                                   quit
                             | Some key \<Rightarrow>
                                 bind_io (get_prefix_input a w) (\<lambda>prefix_input.
                                   let prompt = prefix_input @ '':'' @ [NL] @ input_string
                                   in if prefix_input @ input_string \<noteq> []
                                      then main a w prov key default_tmux_target prefix_input
                                             prompt input_system_prompt
                                      else emit (Print ''no input'')))))))"

section \<open>The script \<open>shellAI.py\<close>\<close>

text \<open>
  The older script has no functions but \<open>clean_command\<close>; its parts are named here
  after what they do. \<open>flags\<close> holds the names of the options that are set.
\<close>

definition prompt_shellAI :: string where
  "prompt_shellAI = concat
    [''\<newline>'',
     ''You are an AI assistant within a shell command 'ai'. You operate by reading the \<newline>'',
     ''users scrollback. You can not see interactive input. Here are your guidelines:\<newline>'',
     ''\<newline>'',
     ''- DO ensure you present one command per response at the end, in a code block:\<newline>'',
     ''  ```bash\<newline>'',
     ''  command\<newline>'',
     ''  ```\<newline>'',
     ''\<newline>'',
     ''- DO NOT use multiple code blocks. For multiple commands, join with semicolons:\<newline>'',
     ''  ```bash\<newline>'',
     ''  command1; command2\<newline>'',
     ''  ```\<newline>'',
     ''\<newline>'',
     ''- DO precede commands with brief explanations.\<newline>'',
     ''\<newline>'',
     ''- DO NOT rely on your own knowledge; use `command --help` or `man command | cat`\<newline>'',
     ''  so both you and the user understand what is happening.\<newline>'',
     ''\<newline>'',
     ''- DO give a command to gather information when needed.\<newline>'',
     ''\<newline>'',
     ''- Do NOT suggest interactive editors like nano or vim, or other interactive programs.\<newline>'',
     ''\<newline>'',
     ''- DO use commands like `sed` or `echo >>` for file edits, or other non-interactive commands where applicable.\<newline>'',
     ''\<newline>'',
     ''- If no command seems necessary, gather info or give a command for the user to explore.\<newline>'']"

text \<open>
  The extraction: the command, and the response as it is printed afterwards (without
  its last line when no code block was found).
\<close>

definition extract_command_shellAI :: "string \<Rightarrow> exn + (string \<times> string)" where
  "extract_command_shellAI response =
     (let code_blocks = findall_block response
      in if code_blocks \<noteq> [] then
           (case py_last code_blocks of
              Inl e \<Rightarrow> Inl e
            | Inr block \<Rightarrow>
                (case py_last (split NL (strip block)) of
                   Inl e \<Rightarrow> Inl e
                 | Inr command \<Rightarrow> Inr (command, response)))
         else
           (let resp = splitlines (strip response)
            in case py_last resp of
                 Inl e \<Rightarrow> Inl e
               | Inr command \<Rightarrow> Inr (command, join [NL] (butlast resp))))"

text \<open>
  \<open>re.sub\<close> with the pattern of three backticks, \<open>.*?\<close> and three backticks: every
  stretch from a fence to the next one is removed.
\<close>

function sub_fenced :: "string \<Rightarrow> string" where
  "sub_fenced [] = []"
| "sub_fenced (c # r) =
     (if startswith (c # r) FENCE then
        (case until_fence (drop 3 (c # r)) of
           Some (g, rest) \<Rightarrow> sub_fenced rest
         | None \<Rightarrow> c # sub_fenced r)
      else c # sub_fenced r)"
  by pat_completeness auto
termination
proof (relation "measure length")
  show "wf (measure length)" by simp
next
  fix c :: char and r x2 g rest
  assume "until_fence (drop 3 (c # r)) = Some x2" and "(g, rest) = x2"
  then have m: "until_fence (drop 3 (c # r)) = Some (g, rest)" by simp
  have shorter: "until_fence s = Some (h, k) \<Longrightarrow> length k < length s" for s h k
    by (induction s arbitrary: h k) (auto split: if_splits)
  have "length rest < length (drop 3 (c # r))"
    using m by (rule shorter)
  then show "(rest, c # r) \<in> measure length" by simp
next
  fix c :: char and r
  show "(r, c # r) \<in> measure length" by simp
next
  fix c :: char and r
  show "(r, c # r) \<in> measure length" by simp
qed

definition inject_shellAI :: "string list \<Rightarrow> world \<Rightarrow> string \<Rightarrow> unit io" where
  "inject_shellAI flags w command0 =
     (let command1 = clean_command_shellAI command0;
          enter = (if ''auto'' \<in> set flags then ''ENTER'' else []);
          command =
            (if ''recursive'' \<in> set flags then command1 @ '';ai '' @ join '' '' (argv w)
             else command1)
      in then_io
           (run (join '' '' [''tmux send-keys'', [DQUOTE] @ command @ [DQUOTE], enter]))
           (then_io (emit (Print [NL]))
              (when_io (''auto'' \<in> set flags) (sleep (Finite 2)))))"

definition get_input_shellAI :: "world \<Rightarrow> string io" where
  "get_input_shellAI w =
     (if \<not> isatty w then then_io (emit ReadStdin) (ret (stdin w))
      else if environ w ''TMUX'' \<noteq> Some [] then
        check_output ''tmux capture-pane -pS -1000'' (capture_pane w)
      else ret [])"

definition shellAI_script :: "string list \<Rightarrow> world \<Rightarrow> unit io" where
  "shellAI_script flags w =
     then_io
       (when_io (''verbose'' \<in> set flags)
          (emits [PrintNoEnd (ljust 20 ''Flags: ''), Print (join '' '' flags),
                  PrintNoEnd (ljust 20 ''Prompt prefix: ''), Print (join '' '' (arg_input w))]))
       (bind_io (check_output ''hostnamectl'' (hostnamectl w)) (\<lambda>info.
          let prompt = prompt_shellAI @ [NL] @ ''Here is the output of hostnamectl'' @ [NL] @ info;
              model_name = (if ''pro'' \<in> set flags then ''gemini-1.5-pro-002''
                            else ''gemini-1.5-flash-002'')
          in case environ w ''GEMINI_API_KEY'' of
               None \<Rightarrow>
                 then_io (emit (Print ''need GEMINI_API_KEY environment variable'')) quit
             | Some key \<Rightarrow>
                 bind_io (get_input_shellAI w) (\<lambda>input_string.
                   let prefix_input =
                         (if length (arg_input w) > 0 then join '' '' (arg_input w) else [])
                   in if prefix_input @ input_string \<noteq> [] then
                        then_io
                          (when_io (''verbose'' \<in> set flags)
                             (then_io (emit (PrintNoEnd (ljust 20 ''Tokens:'')))
                                (then_io
                                   (emit (CountTokens (prefix_input @ '':'' @ [NL] @ input_string)))
                                   (bind_io (lift (count_tokens w)) (\<lambda>n. emit (Print n))))))
                          (bind_io
                             (if ''debug'' \<in> set flags
                              then ret (''test msg '' @ [NL] @ '' echo test '' @ [NL]
                                        @ '' echo test '' @ [NL])
                              else then_io
                                     (emit (GenerateContent key (Some model_name) prompt
                                              (prefix_input @ '':'' @ [NL] @ input_string)))
                                     (lift (generate_content w)))
                             (\<lambda>response0.
                                bind_io (lift (extract_command_shellAI response0))
                                  (\<lambda>(command, response).
                                     then_io
                                       (when_io (''terse'' \<notin> set flags)
                                          (emit (Print (sub_fenced response))))
                                       (if command \<noteq> [] then inject_shellAI flags w command
                                        else ret ()))))
                      else emit (Print ''no input''))))"

section \<open>Notions used in the properties\<close>


text \<open>
  A text that holds no fence: three backticks in a row occur nowhere in it.
\<close>

fun fence_free :: "string \<Rightarrow> bool" where
  "fence_free [] = True"
| "fence_free (c # r) = (\<not> startswith (c # r) FENCE \<and> fence_free r)"



text \<open>
  Inputs for the examples: a run without options, a world in which no credential is
  set, standard input is a pipe and every file can be written, and variations of it.
\<close>

definition plain_args :: args where
  "plain_args =
     \<lparr>auto = False, recursive = False, model = None, quiet = False, verbose = False,
      debug = False, target = ''0:0.0'', provider = ''openrouter'', log = None,
      log_commands = None, file = None, scrollback = 0, system_prompt = None,
      delay = Finite 2\<rparr>"

definition plain_world :: world where
  "plain_world =
     \<lparr>argv = [], arg_input = [''list'', ''files''], environ = Map.empty, isatty = False,
      stdin = ''$ '', display_message = Inr (''0:0.0'' @ [NL]), capture_pane = Inr ''$ shellai'',
      hostnamectl = Inr ''Static hostname: box'',
      read_file = (\<lambda>p. if p = ''/etc/os-release'' then Inr (''NAME=Debian'' @ [NL]) else Inl OSError),
      open_append = (\<lambda>p. None), write_file = (\<lambda>p s. None),
      post = Inl RequestException, genai_installed = False, generate_content = Inl Exception,
      anthropic_installed = False, messages_create = Inl Exception,
      count_tokens = Inl Exception, re_sub = (\<lambda>r c. Inr r), vars_args = [],
      provider_repr = []\<rparr>"

text \<open>
  Kinds of events: a \<open>tmux send-keys\<close> command, a call to the provider, a command run
  by \<open>subprocess.run\<close>, and the events that stay on the machine (output, reading,
  \<open>subprocess.check_output\<close>).
\<close>

definition send_keys :: "event \<Rightarrow> bool" where
  "send_keys e = (case e of Run cmd \<Rightarrow> startswith cmd ''tmux send-keys'' | _ \<Rightarrow> False)"

definition network :: "event \<Rightarrow> bool" where
  "network e =
     (case e of
        Post u k m ms \<Rightarrow> True
      | GenerateContent k m s p \<Rightarrow> True
      | MessagesCreate k m s p \<Rightarrow> True
      | CountTokens p \<Rightarrow> True
      | _ \<Rightarrow> False)"

definition local_event :: "event \<Rightarrow> bool" where
  "local_event e =
     (case e of
        Print s \<Rightarrow> True
      | PrintNoEnd s \<Rightarrow> True
      | PrintValue v \<Rightarrow> True
      | CheckOutput cmd \<Rightarrow> True
      | ReadStdin \<Rightarrow> True
      | ReadFile path \<Rightarrow> True
      | _ \<Rightarrow> False)"

text \<open>The arguments after the script has filled in the provider's default model.\<close>

definition with_model :: "args \<Rightarrow> provider_spec \<Rightarrow> args" where
  "with_model a prov = (if model a = None then a\<lparr>model := Some (default_model prov)\<rparr> else a)"

definition is_run :: "event \<Rightarrow> bool" where
  "is_run e = (case e of Run cmd \<Rightarrow> True | _ \<Rightarrow> False)"

definition openrouter :: provider_spec where
  "openrouter =
     \<lparr>url = ''https://openrouter.ai/api/v1/chat/completions'',
      api_key = ''OPENROUTER_API_KEY'',
      default_model = ''nousresearch/hermes-3-llama-3.1-405b:free'',
      wrapper = W_default\<rparr>"

definition server_error :: http_response where
  "server_error =
     \<lparr>status_code = 500, text = ''Internal Server Error'', json = Inl JSONDecodeError\<rparr>"

definition reply_ls :: http_response where
  "reply_ls =
     \<lparr>status_code = 200, text = [],
      json = Inr (PDict [(''choices'',
               PList [PDict [(''message'',
                 PDict [(''content'', PStr (''```bash'' @ [NL] @ ''ls'' @ [NL]))])]])])\<rparr>"

definition reply_no_choices :: http_response where
  "reply_no_choices =
     \<lparr>status_code = 200, text = [], json = Inr (PDict [(''error'', PStr ''rate limit'')])\<rparr>"

definition keyed_world :: world where
  "keyed_world = plain_world\<lparr>environ := [''OPENROUTER_API_KEY'' \<mapsto> ''secret'']\<rparr>"

definition readonly_world :: world where
  "readonly_world = keyed_world\<lparr>post := Inr reply_ls, open_append := (\<lambda>p. Some OSError)\<rparr>"

definition logging_args :: args where
  "logging_args = plain_args\<lparr>log := Some ''/var/log/shellai.log''\<rparr>"

definition command_log_args :: args where
  "command_log_args = plain_args\<lparr>log_commands := Some ''/var/log/commands.log''\<rparr>"

section \<open>Properties\<close>

lemmas io_defs =
  ret_def raise_def quit_def emit_def lift_def bind_io_def then_io_def when_io_def
  check_output_def read_def print_value_def

subsection \<open>Sequencing of effects\<close>

lemma bind_io_Inr: "snd m = Inr x \<Longrightarrow> bind_io m f = (fst m @ fst (f x), snd (f x))"
  by (cases m) (simp add: bind_io_def split: prod.splits)

lemma bind_io_Inl: "snd m = Inl e \<Longrightarrow> bind_io m f = (fst m, Inl e)"
  by (cases m) (simp add: bind_io_def)

lemma fst_bind_io:
  "fst (bind_io m f) = fst m @ (case snd m of Inl e \<Rightarrow> [] | Inr x \<Rightarrow> fst (f x))"
  by (cases m; cases "snd m") (simp_all add: bind_io_def split: prod.splits)

lemma snd_bind_io:
  "snd (bind_io m f) = (case snd m of Inl e \<Rightarrow> Inl e | Inr x \<Rightarrow> snd (f x))"
  by (cases m; cases "snd m") (simp_all add: bind_io_def split: prod.splits)

lemma fst_then_io:
  "fst (then_io m n) = fst m @ (case snd m of Inl e \<Rightarrow> [] | Inr x \<Rightarrow> fst n)"
  by (simp add: then_io_def fst_bind_io)

lemma snd_then_io:
  "snd (then_io m n) = (case snd m of Inl e \<Rightarrow> Inl e | Inr x \<Rightarrow> snd n)"
  by (simp add: then_io_def snd_bind_io)

lemma fst_ret [simp]: "fst (ret x) = []" and snd_ret [simp]: "snd (ret x) = Inr x"
  by (simp_all add: ret_def)

lemma fst_raise [simp]: "fst (raise e) = []" and snd_raise [simp]: "snd (raise e) = Inl e"
  by (simp_all add: raise_def)

lemma fst_quit [simp]: "fst quit = []" and snd_quit [simp]: "snd quit = Inl SystemExit"
  by (simp_all add: quit_def)

lemma fst_emit [simp]: "fst (emit e) = [e]" and snd_emit [simp]: "snd (emit e) = Inr ()"
  by (simp_all add: emit_def)

lemma fst_lift [simp]: "fst (lift r) = []" and snd_lift [simp]: "snd (lift r) = r"
  by (simp_all add: lift_def)

lemma bind_io_Pair_Inr [simp]: "bind_io (t, Inr x) f = (t @ fst (f x), snd (f x))"
  by (simp add: bind_io_def split: prod.splits)

lemma bind_io_Pair_Inl [simp]: "bind_io (t, Inl e) f = (t, Inl e)"
  by (simp add: bind_io_def)

lemma then_io_Pair_Inr [simp]: "then_io (t, Inr u) n = (t @ fst n, snd n)"
  by (simp add: then_io_def)

lemma then_io_Pair_Inl [simp]: "then_io (t, Inl e) n = (t, Inl e)"
  by (simp add: then_io_def)

lemma then_io_emit [simp]: "then_io (emit e) n = (e # fst n, snd n)"
  by (simp add: then_io_def emit_def bind_io_def split: prod.splits)

lemma then_io_ret [simp]: "then_io (ret ()) n = n"
  by (simp add: then_io_def ret_def bind_io_def split: prod.splits)

lemma snd_emits [simp]: "snd (emits es) = Inr ()"
  by (induction es) (simp_all add: ret_def)

lemma fst_emits [simp]: "fst (emits es) = es"
  by (induction es) (simp_all add: ret_def)

subsection \<open>The sanitizer\<close>

lemma clean_command_rewrite: "clean_command c = concat (map (rewrite '' '') c)"
  unfolding clean_command_def
  by (rule arg_cong [where f = concat], rule map_cong) (auto simp: subs_def rewrite_def)

lemma clean_command_shellAI_rewrite: "clean_command_shellAI c = concat (map (rewrite []) c)"
  unfolding clean_command_shellAI_def
  by (rule arg_cong [where f = concat], rule map_cong) (auto simp: subs_shellAI_def rewrite_def)

lemma well_escaped_plain:
  "\<not> escapable c \<Longrightarrow> c \<noteq> NL \<Longrightarrow> well_escaped r \<Longrightarrow> well_escaped (c # r)"
  by (cases r) (auto simp: escapable_def)

lemma well_escaped_rewrite:
  assumes "nl = '' '' \<or> nl = []" and "well_escaped r"
  shows "well_escaped (rewrite nl x @ r)"
proof -
  have sp: "well_escaped (CHR '' '' # r)"
    using assms(2) by (intro well_escaped_plain) (simp_all add: escapable_def)
  show ?thesis
  proof (cases "escapable x \<or> x = NL")
    case True
    then show ?thesis
      using assms sp by (auto simp: rewrite_def escapable_def)
  next
    case False
    then have "rewrite nl x = [x]"
      by (auto simp: rewrite_def escapable_def)
    with False assms(2) show ?thesis
      by (simp add: well_escaped_plain)
  qed
qed

lemma well_escaped_concat_rewrite:
  "nl = '' '' \<or> nl = [] \<Longrightarrow> well_escaped (concat (map (rewrite nl) c))"
  by (induction c) (simp_all add: well_escaped_rewrite)

text \<open>
  Claim C3. For every input string, the output of the sanitizer (either variant) is
  well escaped: no unescaped double quote, backtick, dollar sign or backslash, and no
  newline; and the output is the concatenation of the images of the input's
  characters under the fixed table, a newline becoming a space (\<open>shellai.py\<close>) or
  nothing (\<open>shellAI.py\<close>) and every other character being passed through.
\<close>

theorem clean_command_well_escaped:
  "well_escaped (clean_command c) \<and> well_escaped (clean_command_shellAI c)
   \<and> clean_command c = concat (map (rewrite '' '') c)
   \<and> clean_command_shellAI c = concat (map (rewrite []) c)"
  by (simp add: clean_command_rewrite clean_command_shellAI_rewrite
      well_escaped_concat_rewrite)

lemma NL_notin_concat_rewrite:
  "nl = '' '' \<or> nl = [] \<Longrightarrow> NL \<notin> set (concat (map (rewrite nl) c))"
  by (induction c) (auto simp: rewrite_def)

lemma length_rewrite_no_NL:
  "NL \<notin> set y \<Longrightarrow>
   length (concat (map (rewrite nl) y)) = length y + length (filter escapable y)"
  by (induction y) (auto simp: rewrite_def escapable_def)

lemma BACKSLASH_in_rewrite:
  "list_ex escapable x \<Longrightarrow> BACKSLASH \<in> set (concat (map (rewrite nl) x))"
  by (induction x) (auto simp: rewrite_def escapable_def)

lemma rewrite_twice_longer:
  assumes "nl = '' '' \<or> nl = []" and "list_ex escapable x"
  shows "length (concat (map (rewrite nl) x))
           < length (concat (map (rewrite nl) (concat (map (rewrite nl) x))))"
proof -
  let ?y = "concat (map (rewrite nl) x)"
  have "BACKSLASH \<in> set ?y"
    using assms(2) by (rule BACKSLASH_in_rewrite)
  then have "filter escapable ?y \<noteq> []"
    by (auto simp: filter_empty_conv escapable_def)
  then have "0 < length (filter escapable ?y)"
    by simp
  moreover have "length (concat (map (rewrite nl) ?y)) = length ?y + length (filter escapable ?y)"
    using assms(1) by (intro length_rewrite_no_NL NL_notin_concat_rewrite)
  ultimately show ?thesis by simp
qed

text \<open>
  Claim C9. The sanitizer is not idempotent: for every input that holds a character
  which the table escapes (double quote, dollar sign, backtick or backslash), the
  second pass escapes the backslashes that the first pass added, so sanitizing twice
  differs from sanitizing once. This holds for both variants.
\<close>

theorem clean_command_not_idempotent:
  assumes "list_ex escapable x"
  shows "clean_command (clean_command x) \<noteq> clean_command x
       \<and> clean_command_shellAI (clean_command_shellAI x) \<noteq> clean_command_shellAI x"
  using rewrite_twice_longer [of "'' ''" x] rewrite_twice_longer [of "[]" x] assms
  by (auto simp: clean_command_rewrite clean_command_shellAI_rewrite)

theorem clean_command_not_idempotent_witness:
  "list_ex escapable [CHR ''l'', CHR ''s'', DQUOTE]
   \<and> clean_command [CHR ''l'', CHR ''s'', DQUOTE] = [CHR ''l'', CHR ''s'', BACKSLASH, DQUOTE]
   \<and> clean_command (clean_command [CHR ''l'', CHR ''s'', DQUOTE])
       \<noteq> clean_command [CHR ''l'', CHR ''s'', DQUOTE]
   \<and> clean_command_shellAI (clean_command_shellAI [CHR ''l'', CHR ''s'', DQUOTE])
       \<noteq> clean_command_shellAI [CHR ''l'', CHR ''s'', DQUOTE]"
proof -
  have h: "list_ex escapable [CHR ''l'', CHR ''s'', DQUOTE]"
    by (simp add: escapable_def)
  have e: "clean_command [CHR ''l'', CHR ''s'', DQUOTE] = [CHR ''l'', CHR ''s'', BACKSLASH, DQUOTE]"
    by (simp add: clean_command_def subs_def)
  show ?thesis
    using h e clean_command_not_idempotent [OF h] by simp
qed

subsection \<open>The extractor\<close>

lemma split_not_Nil: "split sep s \<noteq> []"
  by (induction s) auto







lemma snd_extract_command:
  "snd (extract_command a response) =
     (if findall_line response \<noteq> []
      then Inr (last (split NL (strip (last (findall_line response)))))
      else py_last (splitlines (strip response)))"
  by (simp add: extract_command_def Let_def io_defs py_last_def split_not_Nil split: prod.splits)

lemma findall_line_no_backtick: "BACKTICK \<notin> set s \<Longrightarrow> findall_line s = []"
  by (induction s) (auto simp: match_line_def opening_fence_def startswith_def FENCE_def)

lemma findall_block_no_backtick: "BACKTICK \<notin> set s \<Longrightarrow> findall_block s = []"
  by (induction s) (auto simp: match_block_def opening_fence_def startswith_def FENCE_def)

lemma startswith_append: "startswith s (p @ q) \<Longrightarrow> startswith s p"
proof -
  assume "startswith s (p @ q)"
  then have "take (length (p @ q)) s = p @ q" by (simp add: startswith_def)
  then have "take (length p) (take (length (p @ q)) s) = take (length p) (p @ q)" by simp
  then show ?thesis by (simp add: startswith_def min_def)
qed


lemma opening_fence_needs_fence: "\<not> startswith s FENCE \<Longrightarrow> opening_fence s = None"
  unfolding opening_fence_def using startswith_append [of s FENCE] by auto



lemma findall_line_fence_free: "fence_free s \<Longrightarrow> findall_line s = []"
  by (induction s) (simp_all add: match_line_def opening_fence_needs_fence)






















text \<open>
  Beyond a block of one line, \<open>shellai.py\<close> does not do what its comment
  ``Get the last line from the last code block'' says: the group of its pattern ends
  at the first newline, so of a block of two lines the first is returned, and after a
  block that is closed the search goes on behind the first line, where the closing
  fence and a line after it pass for another block. \<open>shellAI.py\<close> returns the last
  line of the last block on the same responses.
\<close>

lemma extract_command_first_line:
  "snd (extract_command plain_args ''```bash\<newline>echo bye\<newline>echo final\<newline>```'') = Inr ''echo bye''"
  "extract_command_shellAI ''```bash\<newline>echo bye\<newline>echo final\<newline>```''
     = Inr (''echo final'', ''```bash\<newline>echo bye\<newline>echo final\<newline>```'')"
  "snd (extract_command plain_args
          ''```bash\<newline>echo hi\<newline>```\<newline>```bash\<newline>echo final\<newline>```'') = Inr ''```bash''"
  "extract_command_shellAI ''```bash\<newline>echo hi\<newline>```\<newline>```bash\<newline>echo final\<newline>```''
     = Inr (''echo final'', ''```bash\<newline>echo hi\<newline>```\<newline>```bash\<newline>echo final\<newline>```'')"
  by code_simp+

text \<open>
  The extractor raises \<open>IndexError\<close> exactly on the responses that consist of
  whitespace only, the empty response among them.
\<close>

lemma strip_Nil_iff: "strip s = [] \<longleftrightarrow> list_all isspace s"
proof -
  have "dropWhile isspace (rev (dropWhile isspace s)) = [] \<longleftrightarrow> dropWhile isspace s = []"
  proof
    assume a: "dropWhile isspace (rev (dropWhile isspace s)) = []"
    show "dropWhile isspace s = []"
    proof (rule ccontr)
      assume n: "dropWhile isspace s \<noteq> []"
      then have "\<not> isspace (hd (dropWhile isspace s))" by (rule hd_dropWhile)
      moreover have "hd (dropWhile isspace s) \<in> set (rev (dropWhile isspace s))"
        using n by simp
      ultimately show False
        using a by (auto)
    qed
  next
    assume e: "dropWhile isspace s = []"
    show "dropWhile isspace (rev (dropWhile isspace s)) = []"
      unfolding e by simp
  qed
  then have inner: "dropWhile isspace (rev (dropWhile isspace s)) = [] \<longleftrightarrow> dropWhile isspace s = []" .
  have "strip s = [] \<longleftrightarrow> dropWhile isspace (rev (dropWhile isspace s)) = []"
    by (simp add: strip_def)
  also have "\<dots> \<longleftrightarrow> dropWhile isspace s = []"
    by (rule inner)
  also have "\<dots> \<longleftrightarrow> list_all isspace s"
    by (simp add: list_all_iff)
  finally show ?thesis .
qed

lemma splitlines_from_not_Nil: "line \<noteq> [] \<or> s \<noteq> [] \<Longrightarrow> splitlines_from line s \<noteq> []"
  by (induction s arbitrary: line) auto

lemma not_isspace_BACKTICK: "\<not> isspace BACKTICK"
  by (simp add: isspace_def)

lemma extract_command_raises_iff:
  "snd (extract_command a response) = Inl IndexError \<longleftrightarrow> list_all isspace response"
proof
  assume "list_all isspace response"
  then have "BACKTICK \<notin> set response" and "strip response = []"
    using not_isspace_BACKTICK by (auto simp: list_all_iff strip_Nil_iff)
  then show "snd (extract_command a response) = Inl IndexError"
    by (simp add: snd_extract_command findall_line_no_backtick splitlines_def py_last_def)
next
  assume r: "snd (extract_command a response) = Inl IndexError"
  show "list_all isspace response"
  proof (rule ccontr)
    assume "\<not> list_all isspace response"
    then have "strip response \<noteq> []" by (simp add: strip_Nil_iff)
    then have "splitlines (strip response) \<noteq> []"
      by (simp add: splitlines_def splitlines_from_not_Nil)
    with r show False
      by (simp add: snd_extract_command py_last_def split: if_splits)
  qed
qed

lemma extract_command_shellAI_raises_iff:
  "extract_command_shellAI response = Inl IndexError \<longleftrightarrow> list_all isspace response"
proof
  assume "list_all isspace response"
  then have "BACKTICK \<notin> set response" and "strip response = []"
    using not_isspace_BACKTICK by (auto simp: list_all_iff strip_Nil_iff)
  then show "extract_command_shellAI response = Inl IndexError"
    by (simp add: extract_command_shellAI_def findall_block_no_backtick splitlines_def py_last_def)
next
  assume r: "extract_command_shellAI response = Inl IndexError"
  show "list_all isspace response"
  proof (rule ccontr)
    assume "\<not> list_all isspace response"
    then have "strip response \<noteq> []" by (simp add: strip_Nil_iff)
    then have "splitlines (strip response) \<noteq> []"
      by (simp add: splitlines_def splitlines_from_not_Nil)
    with r show False
      by (simp add: extract_command_shellAI_def Let_def py_last_def split_not_Nil split: if_splits)
  qed
qed

text \<open>
  Claim C2 says that the extractor never raises and returns the empty string on the
  empty response. In both scripts the empty response, and a response of one space,
  make \<open>splitlines()\<close> return the empty list, whose subscript \<open>[-1]\<close> raises
  \<open>IndexError\<close>.
\<close>

theorem extract_command_empty_raises:
  "snd (extract_command a []) = Inl IndexError
   \<and> extract_command_shellAI [] = Inl IndexError
   \<and> snd (extract_command a '' '') = Inl IndexError
   \<and> extract_command_shellAI '' '' = Inl IndexError"
  by (simp add: extract_command_raises_iff extract_command_shellAI_raises_iff isspace_def)

subsection \<open>The input and the injection\<close>

lemma get_input_capture:
  "isatty w \<Longrightarrow>
     fst (get_input a w d) =
       (if environ w ''TMUX'' = Some [] then []
        else [CheckOutput (''tmux capture-pane -p -t '' @ target a @ '' -S -''
                           @ str_int (scrollback a))])"
  by (auto simp: get_input_def io_defs split: sum.splits prod.splits)

lemma get_input_shellAI_capture:
  "isatty w \<Longrightarrow>
     fst (get_input_shellAI w) =
       (if environ w ''TMUX'' = Some [] then []
        else [CheckOutput ''tmux capture-pane -pS -1000''])"
  by (auto simp: get_input_shellAI_def io_defs split: sum.splits prod.splits)

text \<open>
  Claim C10. When standard input is a terminal, both scripts run \<open>tmux capture-pane\<close>
  unless the environment variable \<open>TMUX\<close> is set to the empty string; a variable that is
  not set leads to the capture.
\<close>

theorem capture_unless_TMUX_empty:
  "isatty w \<Longrightarrow>
     fst (get_input a w d) =
       (if environ w ''TMUX'' = Some [] then []
        else [CheckOutput (''tmux capture-pane -p -t '' @ target a @ '' -S -''
                           @ str_int (scrollback a))])
     \<and> fst (get_input_shellAI w) =
       (if environ w ''TMUX'' = Some [] then []
        else [CheckOutput ''tmux capture-pane -pS -1000''])"
  by (simp add: get_input_capture get_input_shellAI_capture)

theorem capture_unless_TMUX_empty_witness:
  "isatty (plain_world\<lparr>isatty := True\<rparr>)
   \<and> environ (plain_world\<lparr>isatty := True\<rparr>) ''TMUX'' = None
   \<and> fst (get_input plain_args (plain_world\<lparr>isatty := True\<rparr>) ''0:0.0'')
       = [CheckOutput ''tmux capture-pane -p -t 0:0.0 -S -0'']
   \<and> fst (get_input_shellAI (plain_world\<lparr>isatty := True\<rparr>))
       = [CheckOutput ''tmux capture-pane -pS -1000'']"
proof -
  have tty: "isatty (plain_world\<lparr>isatty := True\<rparr>)" by simp
  have unset: "environ (plain_world\<lparr>isatty := True\<rparr>) ''TMUX'' = None"
    by (simp add: plain_world_def)
  have "str_int (scrollback plain_args) = ''0''"
    by (simp add: plain_args_def str_int_def str_nat.simps)
  then show ?thesis
    using capture_unless_TMUX_empty [OF tty, of plain_args "''0:0.0''"] unset
    by (simp add: plain_args_def)
qed

text \<open>
  \<open>subprocess.run\<close> and \<open>time.sleep\<close> on the arguments that they accept, and the
  sanitizer and \<open>join\<close> on texts without a NUL character.
\<close>

lemma run_ok: "CHR 0x00 \<notin> set cmd \<Longrightarrow> run cmd = ([Run cmd], Inr ())"
  by (simp add: run_def emit_def)

lemma sleep_ok: "0 \<le> r \<Longrightarrow> r * 10 ^ 9 < 2 ^ 63 \<Longrightarrow> sleep (Finite r) = ([Sleep r], Inr ())"
  by (simp add: sleep_def emit_def)

lemma sleep_raises: "snd (sleep secs) = Inl e \<Longrightarrow> sleep secs = ([], Inl e)"
  by (auto simp: sleep_def raise_def emit_def split: pyfloat.splits if_splits)

lemma sleep_negative: "r < 0 \<Longrightarrow> isl (snd (sleep (Finite r)))"
  by (simp add: sleep_def raise_def)

lemma nul_rewrite: "x \<noteq> CHR 0x00 \<Longrightarrow> CHR 0x00 \<notin> set nl \<Longrightarrow> CHR 0x00 \<notin> set (rewrite nl x)"
  by (simp add: rewrite_def)

lemma nul_clean_command: "CHR 0x00 \<notin> set c \<Longrightarrow> CHR 0x00 \<notin> set (clean_command c)"
  unfolding clean_command_rewrite by (induction c) (auto simp: nul_rewrite)

lemma nul_clean_command_shellAI:
  "CHR 0x00 \<notin> set c \<Longrightarrow> CHR 0x00 \<notin> set (clean_command_shellAI c)"
  unfolding clean_command_shellAI_rewrite by (induction c) (auto simp: nul_rewrite)

lemma nul_join:
  "CHR 0x00 \<notin> set sep \<Longrightarrow> \<forall>x\<in>set xs. CHR 0x00 \<notin> set x \<Longrightarrow> CHR 0x00 \<notin> set (join sep xs)"
  by (induction sep xs rule: join.induct) simp_all

lemma put_command_trace:
  assumes l: "log_commands a = None"
    and c: "CHR 0x00 \<notin> set c" and t: "CHR 0x00 \<notin> set (target a)"
    and v: "\<forall>x\<in>set (argv w). CHR 0x00 \<notin> set x"
    and s: "auto a \<longrightarrow> delay a = Finite r \<and> 0 \<le> r \<and> r * 10 ^ 9 < 2 ^ 63"
  shows "put_command a w d c =
     ((if recursive a \<and> target a \<noteq> d
       then [Run (''tmux send-keys '' @ [DQUOTE] @ ''shellai '' @ join '' '' (argv w)
                  @ [DQUOTE] @ '' '' @ (if auto a then ''ENTER'' else [])),
             Print [NL]]
       else [])
      @ [Run (''tmux send-keys -t '' @ target a @ '' '' @ [DQUOTE]
              @ (if recursive a \<and> target a = d
                 then clean_command c @ '';shellai '' @ join '' '' (argv w)
                 else clean_command c)
              @ [DQUOTE])]
      @ (if target a = d then [Print [NL]] else [])
      @ (if auto a
         then [Sleep r, Run (''tmux send-keys -t '' @ target a @ ''  ENTER'')]
         else []),
      Inr ())"
proof -
  have j: "CHR 0x00 \<notin> set (join '' '' (argv w))"
    using v by (intro nul_join) simp_all
  have k: "CHR 0x00 \<notin> set (clean_command c)"
    using c by (rule nul_clean_command)
  show ?thesis
  proof (cases "auto a")
    case True
    with s have "sleep (delay a) = ([Sleep r], Inr ())"
      by (simp add: sleep_ok)
    then show ?thesis
      using True t j k by (simp add: put_command_def Let_def l run_def io_defs)
  next
    case False
    then show ?thesis
      using t j k by (simp add: put_command_def Let_def l run_def io_defs)
  qed
qed

lemma inject_shellAI_trace:
  assumes c: "CHR 0x00 \<notin> set c" and v: "\<forall>x\<in>set (argv w). CHR 0x00 \<notin> set x"
  shows "inject_shellAI flags w c =
      ([Run (join '' ''
               [''tmux send-keys'',
                [DQUOTE]
                @ (if ''recursive'' \<in> set flags
                   then clean_command_shellAI c @ '';ai '' @ join '' '' (argv w)
                   else clean_command_shellAI c)
                @ [DQUOTE],
                if ''auto'' \<in> set flags then ''ENTER'' else []]),
        Print [NL]]
       @ (if ''auto'' \<in> set flags then [Sleep 2] else []),
       Inr ())"
proof -
  have j: "CHR 0x00 \<notin> set (join '' '' (argv w))"
    using v by (intro nul_join) simp_all
  have k: "CHR 0x00 \<notin> set (clean_command_shellAI c)"
    using c by (rule nul_clean_command_shellAI)
  have s: "sleep (Finite 2) = ([Sleep 2], Inr ())"
    by (rule sleep_ok) simp_all
  show ?thesis
    using j k by (simp add: inject_shellAI_def Let_def s run_def io_defs)
qed

lemma put_command_logged:
  assumes "log_commands a = Some path"
    and "snd (append_file w path (PStr (clean_command c @ [NL]))) = Inr ()"
  shows "put_command a w d c =
     (fst (append_file w path (PStr (clean_command c @ [NL])))
        @ fst (put_command (a\<lparr>log_commands := None\<rparr>) w d c),
      snd (put_command (a\<lparr>log_commands := None\<rparr>) w d c))"
proof -
  have "then_io (append_file w path (PStr (clean_command c @ [NL]))) k
          = (fst (append_file w path (PStr (clean_command c @ [NL]))) @ fst k, snd k)"
    for k :: "unit io"
    using assms(2) by (simp add: then_io_def bind_io_Inr)
  then show ?thesis
    using assms(1) by (simp add: put_command_def Let_def)
qed

text \<open>
  What stops the injection half way: \<open>time.sleep\<close> refuses the delay (the option
  \<open>--delay\<close> is not checked when the command line is read), so that with \<open>auto\<close> the
  command is placed and Enter is never sent to the target pane; or the command holds
  a NUL character, which \<open>clean_command\<close> lets through, so that \<open>subprocess.run\<close>
  refuses it and nothing is sent.
\<close>

lemma put_command_delay_rejected:
  assumes l: "log_commands a = None"
    and c: "CHR 0x00 \<notin> set c" and t: "CHR 0x00 \<notin> set (target a)"
    and v: "\<forall>x\<in>set (argv w). CHR 0x00 \<notin> set x"
    and s: "auto a" "snd (sleep (delay a)) = Inl e"
  shows "put_command a w d c =
     ((if recursive a \<and> target a \<noteq> d
       then [Run (''tmux send-keys '' @ [DQUOTE] @ ''shellai '' @ join '' '' (argv w)
                  @ [DQUOTE] @ '' ENTER''),
             Print [NL]]
       else [])
      @ [Run (''tmux send-keys -t '' @ target a @ '' '' @ [DQUOTE]
              @ (if recursive a \<and> target a = d
                 then clean_command c @ '';shellai '' @ join '' '' (argv w)
                 else clean_command c)
              @ [DQUOTE])]
      @ (if target a = d then [Print [NL]] else []),
      Inl e)"
proof -
  have j: "CHR 0x00 \<notin> set (join '' '' (argv w))"
    using v by (intro nul_join) simp_all
  have k: "CHR 0x00 \<notin> set (clean_command c)"
    using c by (rule nul_clean_command)
  have "sleep (delay a) = ([], Inl e)"
    using s(2) by (rule sleep_raises)
  then show ?thesis
    using s(1) t j k by (simp add: put_command_def Let_def l run_def io_defs)
qed

lemma put_command_negative_delay:
  "put_command (plain_args\<lparr>auto := True, delay := Finite (- 1)\<rparr>) plain_world ''0:0.0'' ''ls''
     = ([Run (''tmux send-keys -t 0:0.0 '' @ [DQUOTE] @ ''ls'' @ [DQUOTE]), Print [NL]],
        Inl ValueError)"
  by (simp add: put_command_def Let_def plain_args_def plain_world_def clean_command_def
      subs_def run_def sleep_def io_defs)

lemma put_command_nul:
  assumes "log_commands a = None" and "\<not> recursive a" and "CHR 0x00 \<in> set c"
  shows "put_command a w d c = ([], Inl ValueError)"
proof -
  have "CHR 0x00 \<in> set (clean_command c)"
    using assms(3) unfolding clean_command_rewrite
    by (induction c) (auto simp: rewrite_def)
  then show ?thesis
    using assms(1,2) by (simp add: put_command_def Let_def run_def io_defs)
qed

text \<open>
  Claim C8, as the code has it. The command, the target and the arguments of the
  script hold no NUL character, the command log, if there is one, can be written, and
  with \<open>auto\<close> the delay is a length that \<open>time.sleep\<close> accepts: a number that is not
  negative and lies in the range of the timer. Then \<open>put_command\<close> of \<open>shellai.py\<close>
  places the command with one \<open>tmux send-keys\<close> call that carries no Enter; with the
  option \<open>auto\<close> it then sleeps for \<open>delay\<close> and only afterwards sends Enter to the
  target pane, and without \<open>auto\<close> it sends no Enter to the target pane at all; in
  both cases it returns. With \<open>recursive\<close> and a target other than the own pane, the
  call of the script itself is typed into the own pane before all that, with Enter
  exactly when \<open>auto\<close> is set. \<open>shellAI.py\<close> passes Enter in the same
  \<open>tmux send-keys\<close> call as the command exactly when \<open>auto\<close> is set, and sleeps two
  seconds after that call.
\<close>

theorem put_command_enter_after_delay:
  "(CHR 0x00 \<notin> set c \<and> CHR 0x00 \<notin> set (target a)
      \<and> (\<forall>x\<in>set (argv w). CHR 0x00 \<notin> set x)
      \<and> (case log_commands a of
            None \<Rightarrow> True
          | Some path \<Rightarrow> snd (append_file w path (PStr (clean_command c @ [NL]))) = Inr ())
      \<and> (auto a \<longrightarrow> delay a = Finite r \<and> 0 \<le> r \<and> r * 10 ^ 9 < 2 ^ 63) \<longrightarrow>
    put_command a w d c =
      ((case log_commands a of
          None \<Rightarrow> []
        | Some path \<Rightarrow> fst (append_file w path (PStr (clean_command c @ [NL]))))
       @ (if recursive a \<and> target a \<noteq> d
          then [Run (''tmux send-keys '' @ [DQUOTE] @ ''shellai '' @ join '' '' (argv w)
                     @ [DQUOTE] @ '' '' @ (if auto a then ''ENTER'' else [])),
                Print [NL]]
          else [])
       @ [Run (''tmux send-keys -t '' @ target a @ '' '' @ [DQUOTE]
               @ (if recursive a \<and> target a = d
                  then clean_command c @ '';shellai '' @ join '' '' (argv w)
                  else clean_command c)
               @ [DQUOTE])]
       @ (if target a = d then [Print [NL]] else [])
       @ (if auto a
          then [Sleep r, Run (''tmux send-keys -t '' @ target a @ ''  ENTER'')]
          else []),
       Inr ()))
   \<and> (CHR 0x00 \<notin> set c \<and> (\<forall>x\<in>set (argv w). CHR 0x00 \<notin> set x) \<longrightarrow>
      inject_shellAI flags w c =
        ([Run (join '' ''
                 [''tmux send-keys'',
                  [DQUOTE]
                  @ (if ''recursive'' \<in> set flags
                     then clean_command_shellAI c @ '';ai '' @ join '' '' (argv w)
                     else clean_command_shellAI c)
                  @ [DQUOTE],
                  if ''auto'' \<in> set flags then ''ENTER'' else []]),
          Print [NL]]
         @ (if ''auto'' \<in> set flags then [Sleep 2] else []),
         Inr ()))"
proof (intro conjI impI)
  assume h: "CHR 0x00 \<notin> set c \<and> CHR 0x00 \<notin> set (target a)
      \<and> (\<forall>x\<in>set (argv w). CHR 0x00 \<notin> set x)
      \<and> (case log_commands a of
            None \<Rightarrow> True
          | Some path \<Rightarrow> snd (append_file w path (PStr (clean_command c @ [NL]))) = Inr ())
      \<and> (auto a \<longrightarrow> delay a = Finite r \<and> 0 \<le> r \<and> r * 10 ^ 9 < 2 ^ 63)"
  then have c: "CHR 0x00 \<notin> set c" and t: "CHR 0x00 \<notin> set (target a)"
    and v: "\<forall>x\<in>set (argv w). CHR 0x00 \<notin> set x"
    and s: "auto a \<longrightarrow> delay a = Finite r \<and> 0 \<le> r \<and> r * 10 ^ 9 < 2 ^ 63"
    by simp_all
  show "put_command a w d c =
      ((case log_commands a of
          None \<Rightarrow> []
        | Some path \<Rightarrow> fst (append_file w path (PStr (clean_command c @ [NL]))))
       @ (if recursive a \<and> target a \<noteq> d
          then [Run (''tmux send-keys '' @ [DQUOTE] @ ''shellai '' @ join '' '' (argv w)
                     @ [DQUOTE] @ '' '' @ (if auto a then ''ENTER'' else [])),
                Print [NL]]
          else [])
       @ [Run (''tmux send-keys -t '' @ target a @ '' '' @ [DQUOTE]
               @ (if recursive a \<and> target a = d
                  then clean_command c @ '';shellai '' @ join '' '' (argv w)
                  else clean_command c)
               @ [DQUOTE])]
       @ (if target a = d then [Print [NL]] else [])
       @ (if auto a
          then [Sleep r, Run (''tmux send-keys -t '' @ target a @ ''  ENTER'')]
          else []),
       Inr ())"
  proof (cases "log_commands a")
    case None
    then show ?thesis
      using put_command_trace [OF None c t v s, of d] by simp
  next
    case (Some path)
    have n: "log_commands (a\<lparr>log_commands := None\<rparr>) = None"
      by simp
    have t': "CHR 0x00 \<notin> set (target (a\<lparr>log_commands := None\<rparr>))"
      using t by simp
    have s': "auto (a\<lparr>log_commands := None\<rparr>) \<longrightarrow>
        delay (a\<lparr>log_commands := None\<rparr>) = Finite r \<and> 0 \<le> r \<and> r * 10 ^ 9 < 2 ^ 63"
      using s by simp
    from Some h have "snd (append_file w path (PStr (clean_command c @ [NL]))) = Inr ()"
      by simp
    with Some have "put_command a w d c =
       (fst (append_file w path (PStr (clean_command c @ [NL])))
          @ fst (put_command (a\<lparr>log_commands := None\<rparr>) w d c),
        snd (put_command (a\<lparr>log_commands := None\<rparr>) w d c))"
      by (rule put_command_logged)
    then show ?thesis
      using Some put_command_trace [OF n c t' v s', of d] by simp
  qed
next
  assume "CHR 0x00 \<notin> set c \<and> (\<forall>x\<in>set (argv w). CHR 0x00 \<notin> set x)"
  then show "inject_shellAI flags w c =
        ([Run (join '' ''
                 [''tmux send-keys'',
                  [DQUOTE]
                  @ (if ''recursive'' \<in> set flags
                     then clean_command_shellAI c @ '';ai '' @ join '' '' (argv w)
                     else clean_command_shellAI c)
                  @ [DQUOTE],
                  if ''auto'' \<in> set flags then ''ENTER'' else []]),
          Print [NL]]
         @ (if ''auto'' \<in> set flags then [Sleep 2] else []),
         Inr ())"
    by (intro inject_shellAI_trace) simp_all
qed

theorem put_command_enter_after_delay_witness:
  "CHR 0x00 \<notin> set ''ls'' \<and> CHR 0x00 \<notin> set (target (plain_args\<lparr>auto := True\<rparr>))
   \<and> argv plain_world = []
   \<and> log_commands (plain_args\<lparr>auto := True\<rparr>) = None
   \<and> auto (plain_args\<lparr>auto := True\<rparr>)
   \<and> delay (plain_args\<lparr>auto := True\<rparr>) = Finite 2 \<and> (0::real) \<le> 2
   \<and> (2::real) * 10 ^ 9 < 2 ^ 63
   \<and> put_command (plain_args\<lparr>auto := True\<rparr>) plain_world ''0:0.0'' ''ls''
      = ([Run (''tmux send-keys -t 0:0.0 '' @ [DQUOTE] @ ''ls'' @ [DQUOTE]), Print [NL],
          Sleep 2, Run ''tmux send-keys -t 0:0.0  ENTER''], Inr ())
   \<and> put_command plain_args plain_world ''0:0.0'' ''ls''
      = ([Run (''tmux send-keys -t 0:0.0 '' @ [DQUOTE] @ ''ls'' @ [DQUOTE]), Print [NL]], Inr ())
   \<and> inject_shellAI [] plain_world ''ls''
      = ([Run (''tmux send-keys '' @ [DQUOTE] @ ''ls'' @ [DQUOTE] @ '' ''), Print [NL]], Inr ())"
proof -
  have c: "clean_command ''ls'' = ''ls''" "clean_command_shellAI ''ls'' = ''ls''"
    by (simp_all add: clean_command_def subs_def clean_command_shellAI_def subs_shellAI_def)
  have f: "log_commands (plain_args\<lparr>auto := True\<rparr>) = None" "log_commands plain_args = None"
    "recursive (plain_args\<lparr>auto := True\<rparr>) = False" "recursive plain_args = False"
    "target (plain_args\<lparr>auto := True\<rparr>) = ''0:0.0''" "target plain_args = ''0:0.0''"
    "auto (plain_args\<lparr>auto := True\<rparr>) = True" "auto plain_args = False"
    "delay (plain_args\<lparr>auto := True\<rparr>) = Finite 2" "argv plain_world = []"
    by (simp_all add: plain_args_def plain_world_def)
  show ?thesis
    using
      put_command_enter_after_delay [where a = "plain_args\<lparr>auto := True\<rparr>"
        and w = plain_world and d = "''0:0.0''" and c = "''ls''" and r = 2 and flags = "[]"]
      put_command_enter_after_delay [where a = plain_args
        and w = plain_world and d = "''0:0.0''" and c = "''ls''" and r = 2 and flags = "[]"]
    by (simp add: c f)
qed

theorem enter_before_sleep_counterexample:
  "inject_shellAI [''auto''] plain_world ''ls''
     = ([Run (''tmux send-keys '' @ [DQUOTE] @ ''ls'' @ [DQUOTE] @ '' ENTER''),
         Print [NL], Sleep 2], Inr ())"
  by (simp add: inject_shellAI_def Let_def io_defs clean_command_shellAI_def subs_shellAI_def
      run_def sleep_def)

subsection \<open>Events of the scripts\<close>

lemma local_not_network: "local_event e \<Longrightarrow> \<not> network e"
  by (cases e) (simp_all add: local_event_def network_def)

lemma local_not_send_keys: "local_event e \<Longrightarrow> \<not> send_keys e"
  by (cases e) (simp_all add: local_event_def send_keys_def)

lemma load_system_prompt_local: "list_all local_event (fst (load_system_prompt a w))"
  by (auto simp: load_system_prompt_def io_defs local_event_def split: option.splits sum.splits prod.splits)

lemma get_input_local: "list_all local_event (fst (get_input a w d))"
  by (auto simp: get_input_def io_defs local_event_def split: option.splits sum.splits prod.splits)

lemma show_flags_local: "list_all local_event (fst (show_flags a w))"
  by (auto simp: show_flags_def local_event_def split: option.splits)

lemma user_os_local: "list_all local_event (fst (user_os w))"
  by (auto simp: user_os_def io_defs local_event_def split: option.splits sum.splits prod.splits)

lemma get_prefix_input_local: "list_all local_event (fst (get_prefix_input a w))"
  by (auto simp: get_prefix_input_def Let_def io_defs local_event_def split: option.splits sum.splits prod.splits)

lemma get_input_model [simp]: "get_input (a\<lparr>model := m\<rparr>) w d = get_input a w d"
  by (simp add: get_input_def)

lemma snd_show_flags [simp]: "snd (show_flags a w) = Inr ()"
  by (simp add: show_flags_def)

lemma shellai_script_missing_key:
  assumes "providers (provider a) = Some prov"
    and "environ w (api_key prov) = None"
    and "display_message w = Inr out"
    and "snd (load_system_prompt a w) = Inr sp"
    and "snd (get_input a w (strip out)) = Inr inp"
    and "snd (user_os w) = Inr name"
  shows "shellai_script a w =
     (CheckOutput (''tmux display-message -p '' @ [SQUOTE] @ ''#S:#I.#P'' @ [SQUOTE])
        # fst (load_system_prompt a w) @ fst (get_input a w (strip out))
        @ (if verbose a then fst (show_flags (with_model a prov) w) else [])
        @ fst (user_os w)
        @ [Print (''need '' @ api_key prov @ '' environment variable'')],
      Inl SystemExit)"
  using assms
  by (simp add: shellai_script_def with_model_def check_output_def lift_def Let_def bind_io_Inr
      when_io_def quit_def raise_def fst_then_io snd_then_io)

lemma send_keys_is_run: "send_keys e \<Longrightarrow> is_run e"
  by (cases e) (simp_all add: send_keys_def is_run_def)

lemma local_not_run: "local_event e \<Longrightarrow> \<not> is_run e"
  by (cases e) (simp_all add: local_event_def is_run_def)

lemma list_all_local_no_network: "list_all local_event t \<Longrightarrow> \<not> list_ex network t"
  by (induction t) (auto dest: local_not_network)

lemma list_all_local_no_run: "list_all local_event t \<Longrightarrow> \<not> list_ex is_run t"
  by (induction t) (auto dest: local_not_run)

lemma no_run_no_send_keys: "\<not> list_ex is_run t \<Longrightarrow> \<not> list_ex send_keys t"
  by (induction t) (auto dest: send_keys_is_run)

lemma shellai_script_local:
  assumes "providers (provider a) = Some prov" and "environ w (api_key prov) = None"
  shows "list_all local_event (fst (shellai_script a w))"
  using assms load_system_prompt_local [of a w] user_os_local [of w]
    get_input_local [of a w] show_flags_local [of _ w]
  by (auto simp: shellai_script_def check_output_def Let_def fst_bind_io fst_then_io when_io_def
      local_event_def split: sum.splits)

lemma shellAI_script_missing_key:
  assumes "environ w ''GEMINI_API_KEY'' = None"
  shows "list_all local_event (fst (shellAI_script flags w))"
    and "hostnamectl w = Inr info \<Longrightarrow>
         shellAI_script flags w =
           ((if ''verbose'' \<in> set flags
             then [PrintNoEnd (ljust 20 ''Flags: ''), Print (join '' '' flags),
                   PrintNoEnd (ljust 20 ''Prompt prefix: ''), Print (join '' '' (arg_input w))]
             else [])
            @ [CheckOutput ''hostnamectl'', Print ''need GEMINI_API_KEY environment variable''],
            Inl SystemExit)"
  using assms
  by (auto simp: shellAI_script_def check_output_def Let_def fst_bind_io fst_then_io when_io_def
      snd_then_io local_event_def bind_io_Inr split: sum.splits)

lemma get_response_default_error:
  assumes "post w = Inr r" and "status_code r \<noteq> 200"
  shows "get_response_default a w prov key p sp =
           ([Post (url prov) key (model a) (messages p sp),
             Print (''Error: '' @ str_int (status_code r)), Print (text r)],
            Inl SystemExit)"
  using assms by (simp add: get_response_default_def bind_io_Inr)

lemma get_response_default_malformed:
  assumes "post w = Inr r" and "status_code r = 200" and "json r = Inr data"
    and "message_content data = Inl KeyError"
  shows "get_response_default a w prov key p sp =
           (Post (url prov) key (model a) (messages p sp) # Print ''unexpected output''
              # fst (print_value data),
            Inl SystemExit)"
  using assms
  by (simp add: get_response_default_def bind_io_Inr fst_then_io snd_then_io print_value_def
      split: pyval.splits)

lemma get_response_fetch_fails:
  assumes "\<not> debug a" and "snd (call_wrapper a w prov key p sp) = Inl e"
  shows "get_response a w prov key pre p sp =
           ((if verbose a then [Print ''getting response''] else [])
              @ fst (call_wrapper a w prov key p sp), Inl e)"
  using assms by (simp add: get_response_def bind_io_Inl when_io_def)

lemma main_fetch_fails:
  assumes "snd (get_response a w prov key pre p sp) = Inl e"
  shows "main a w prov key d pre p sp = (fst (get_response a w prov key pre p sp), Inl e)"
  using assms by (simp add: main_def bind_io_Inl)

lemma main_http_error:
  assumes "wrapper prov = W_default" and "\<not> debug a" and "post w = Inr r"
    and "status_code r \<noteq> 200"
  shows "main a w prov key d pre p sp =
           ((if verbose a then [Print ''getting response''] else [])
              @ [Post (url prov) key (model a) (messages p sp),
                 Print (''Error: '' @ str_int (status_code r)), Print (text r)],
            Inl SystemExit)"
proof -
  have c: "call_wrapper a w prov key p sp =
             ([Post (url prov) key (model a) (messages p sp),
               Print (''Error: '' @ str_int (status_code r)), Print (text r)],
              Inl SystemExit)"
    using assms by (simp add: call_wrapper_def get_response_default_error)
  then have "get_response a w prov key pre p sp =
           ((if verbose a then [Print ''getting response''] else [])
              @ [Post (url prov) key (model a) (messages p sp),
                 Print (''Error: '' @ str_int (status_code r)), Print (text r)],
            Inl SystemExit)"
    using assms(2) get_response_fetch_fails [of a w prov key p sp SystemExit pre] by simp
  then show ?thesis
    using main_fetch_fails [of a w prov key pre p sp SystemExit d] by simp
qed

lemma main_malformed:
  assumes "wrapper prov = W_default" and "\<not> debug a" and "post w = Inr r"
    and "status_code r = 200" and "json r = Inr data"
    and "message_content data = Inl KeyError"
  shows "main a w prov key d pre p sp =
           ((if verbose a then [Print ''getting response''] else [])
              @ Post (url prov) key (model a) (messages p sp) # Print ''unexpected output''
              # fst (print_value data),
            Inl SystemExit)"
proof -
  have c: "call_wrapper a w prov key p sp =
             (Post (url prov) key (model a) (messages p sp) # Print ''unexpected output''
              # fst (print_value data),
              Inl SystemExit)"
    using assms by (simp add: call_wrapper_def get_response_default_malformed)
  then have "get_response a w prov key pre p sp =
           ((if verbose a then [Print ''getting response''] else [])
              @ Post (url prov) key (model a) (messages p sp) # Print ''unexpected output''
              # fst (print_value data),
            Inl SystemExit)"
    using assms(2) get_response_fetch_fails [of a w prov key p sp SystemExit pre] by simp
  then show ?thesis
    using main_fetch_fails [of a w prov key pre p sp SystemExit d] by simp
qed

lemma append_file_no_run: "\<not> list_ex is_run (fst (append_file w path v))"
  by (auto simp: append_file_def is_run_def fst_then_io split: option.splits pyval.splits)

lemma get_response_debug_no_run: "\<not> list_ex is_run (fst (get_response_debug a pre p sp))"
  by (auto simp: get_response_debug_def is_run_def fst_then_io fst_bind_io when_io_def
      split: sum.splits)

lemma call_wrapper_no_run: "\<not> list_ex is_run (fst (call_wrapper a w prov key p sp))"
  by (auto simp: call_wrapper_def get_response_default_def get_response_gemini_def
      get_response_anthropic_def print_value_def is_run_def fst_then_io fst_bind_io
      split: sum.splits wrapper.splits option.splits pyval.splits)

lemma get_response_no_run: "\<not> list_ex is_run (fst (get_response a w prov key pre p sp))"
  using append_file_no_run [of w] get_response_debug_no_run [of a pre p sp]
    call_wrapper_no_run [of a w prov key p sp]
  by (auto simp: get_response_def print_value_def is_run_def fst_then_io fst_bind_io when_io_def
      snd_bind_io snd_then_io split: sum.splits option.splits pyval.splits)

lemma providers_openrouter: "providers ''openrouter'' = Some openrouter"
  by (simp add: providers_def openrouter_def)

lemma plain_startup:
  "providers (provider plain_args) = Some openrouter"
  "environ plain_world (api_key openrouter) = None"
  "display_message plain_world = Inr (''0:0.0'' @ [NL])"
  "snd (load_system_prompt plain_args plain_world) = Inr default_system_prompt"
  "snd (get_input plain_args plain_world (strip (''0:0.0'' @ [NL]))) = Inr ''$ ''"
  "snd (user_os plain_world) = Inr ''Debian''"
       apply (simp add: plain_args_def providers_openrouter)
      apply (simp add: plain_world_def)
     apply (simp add: plain_world_def)
    apply (simp add: load_system_prompt_def plain_args_def)
   apply (simp add: get_input_def plain_world_def)
  apply (simp add: user_os_def read_def lift_def ret_def plain_world_def readlines_def
      strip_def isspace_def)
  done

lemma shellai_script_run:
  assumes "list_ex is_run (fst (shellai_script a w))"
  shows "\<exists>prov key d pre p sp.
           providers (provider a) = Some prov \<and> environ w (api_key prov) = Some key
           \<and> list_ex is_run (fst (main (with_model a prov) w prov key d pre p sp))"
proof -
  have l: "\<not> list_ex is_run (fst (load_system_prompt a w))"
    "\<not> list_ex is_run (fst (get_input a w d))"
    "\<not> list_ex is_run (fst (show_flags b w))"
    "\<not> list_ex is_run (fst (user_os w))"
    "\<not> list_ex is_run (fst (get_prefix_input b w))" for b d
    by (simp_all add: list_all_local_no_run load_system_prompt_local get_input_local
        show_flags_local user_os_local get_prefix_input_local)
  show ?thesis
    using assms l
    apply (simp add: shellai_script_def check_output_def Let_def fst_bind_io fst_then_io
        when_io_def is_run_def with_model_def split: sum.splits option.splits if_splits)
    apply blast+
    done
qed

subsection \<open>Failures before and during the fetch\<close>

text \<open>
  Claim C4. When the environment variable that holds the provider's credential is not
  set, neither script causes a network event, and once the steps before the lookup
  have succeeded the script prints \<open>need NAME environment variable\<close> with the exact
  name of the variable as its last output and ends with \<open>SystemExit\<close>.
\<close>

theorem missing_credential_before_network:
  "(providers (provider a) = Some prov \<and> environ w (api_key prov) = None \<longrightarrow>
      \<not> list_ex network (fst (shellai_script a w))
      \<and> (display_message w = Inr out \<and> snd (load_system_prompt a w) = Inr sp
           \<and> snd (get_input a w (strip out)) = Inr inp \<and> snd (user_os w) = Inr name \<longrightarrow>
         snd (shellai_script a w) = Inl SystemExit
         \<and> last (fst (shellai_script a w))
             = Print (''need '' @ api_key prov @ '' environment variable'')))
   \<and> (environ w ''GEMINI_API_KEY'' = None \<longrightarrow>
      \<not> list_ex network (fst (shellAI_script flags w))
      \<and> (hostnamectl w = Inr info \<longrightarrow>
         snd (shellAI_script flags w) = Inl SystemExit
         \<and> last (fst (shellAI_script flags w))
             = Print ''need GEMINI_API_KEY environment variable''))"
proof (intro conjI impI; (elim conjE)?)
  assume k: "providers (provider a) = Some prov" "environ w (api_key prov) = None"
  then show "\<not> list_ex network (fst (shellai_script a w))"
    by (intro list_all_local_no_network shellai_script_local)
  assume "display_message w = Inr out" "snd (load_system_prompt a w) = Inr sp"
    "snd (get_input a w (strip out)) = Inr inp" "snd (user_os w) = Inr name"
  with k have s: "shellai_script a w =
     (CheckOutput (''tmux display-message -p '' @ [SQUOTE] @ ''#S:#I.#P'' @ [SQUOTE])
        # fst (load_system_prompt a w) @ fst (get_input a w (strip out))
        @ (if verbose a then fst (show_flags (with_model a prov) w) else [])
        @ fst (user_os w)
        @ [Print (''need '' @ api_key prov @ '' environment variable'')],
      Inl SystemExit)"
    by (rule shellai_script_missing_key)
  show "snd (shellai_script a w) = Inl SystemExit"
    by (simp add: s)
  show "last (fst (shellai_script a w)) = Print (''need '' @ api_key prov @ '' environment variable'')"
    by (simp add: s)
next
  assume k: "environ w ''GEMINI_API_KEY'' = None"
  then show "\<not> list_ex network (fst (shellAI_script flags w))"
    by (intro list_all_local_no_network shellAI_script_missing_key)
  assume "hostnamectl w = Inr info"
  with k have s: "shellAI_script flags w =
           ((if ''verbose'' \<in> set flags
             then [PrintNoEnd (ljust 20 ''Flags: ''), Print (join '' '' flags),
                   PrintNoEnd (ljust 20 ''Prompt prefix: ''), Print (join '' '' (arg_input w))]
             else [])
            @ [CheckOutput ''hostnamectl'', Print ''need GEMINI_API_KEY environment variable''],
            Inl SystemExit)"
    by (rule shellAI_script_missing_key)
  show "snd (shellAI_script flags w) = Inl SystemExit"
    by (simp add: s)
  show "last (fst (shellAI_script flags w)) = Print ''need GEMINI_API_KEY environment variable''"
    by (simp add: s)
qed

theorem missing_credential_before_network_witness:
  "providers (provider plain_args) = Some openrouter
   \<and> environ plain_world (api_key openrouter) = None
   \<and> environ plain_world ''GEMINI_API_KEY'' = None
   \<and> \<not> list_ex network (fst (shellai_script plain_args plain_world))
   \<and> snd (shellai_script plain_args plain_world) = Inl SystemExit
   \<and> last (fst (shellai_script plain_args plain_world))
       = Print ''need OPENROUTER_API_KEY environment variable''
   \<and> \<not> list_ex network (fst (shellAI_script [] plain_world))
   \<and> snd (shellAI_script [] plain_world) = Inl SystemExit
   \<and> last (fst (shellAI_script [] plain_world))
       = Print ''need GEMINI_API_KEY environment variable''"
proof -
  have g: "environ plain_world ''GEMINI_API_KEY'' = None"
    "hostnamectl plain_world = Inr ''Static hostname: box''"
    by (simp_all add: plain_world_def)
  have n: "api_key openrouter = ''OPENROUTER_API_KEY''"
    by (simp add: openrouter_def)
  show ?thesis
    using missing_credential_before_network
      [of plain_args openrouter plain_world "''0:0.0'' @ [NL]" default_system_prompt "''$ ''"
        "''Debian''" "[]" "''Static hostname: box''"]
      plain_startup g n
    by simp
qed

lemma exit_status_SystemExit: "snd m = Inl SystemExit \<Longrightarrow> exit_status m = 0"
  by (simp add: exit_status_def)

text \<open>
  Claim C6. When the provider called through \<open>get_response_default\<close> answers with a
  status other than 200, \<open>main\<close> prints the status code and the body of the answer and
  ends with \<open>SystemExit\<close>; no \<open>tmux send-keys\<close> command is run, neither by \<open>main\<close> nor
  anywhere in the script.
\<close>

theorem http_error_no_injection:
  assumes "wrapper prov = W_default" and "\<not> debug a" and "post w = Inr r"
    and "status_code r \<noteq> 200"
  shows "main a w prov key d pre p sp =
           ((if verbose a then [Print ''getting response''] else [])
              @ [Post (url prov) key (model a) (messages p sp),
                 Print (''Error: '' @ str_int (status_code r)), Print (text r)],
            Inl SystemExit)
       \<and> \<not> list_ex send_keys (fst (main a w prov key d pre p sp))
       \<and> (providers (provider a) = Some prov \<longrightarrow>
            \<not> list_ex send_keys (fst (shellai_script a w)))"
proof -
  have m: "main b w prov k e q p2 s2 =
           ((if verbose b then [Print ''getting response''] else [])
              @ [Post (url prov) k (model b) (messages p2 s2),
                 Print (''Error: '' @ str_int (status_code r)), Print (text r)],
            Inl SystemExit)" if "\<not> debug b" for b k e q p2 s2
    using assms(1) that assms(3,4) by (rule main_http_error)
  have n: "\<not> list_ex is_run (fst (main b w prov k e q p2 s2))" if "\<not> debug b" for b k e q p2 s2
    by (simp add: m [OF that] is_run_def)
  have "\<not> list_ex is_run (fst (shellai_script a w))" if "providers (provider a) = Some prov"
  proof
    assume "list_ex is_run (fst (shellai_script a w))"
    then obtain prov' k e q p2 s2 where "providers (provider a) = Some prov'"
      and "list_ex is_run (fst (main (with_model a prov') w prov' k e q p2 s2))"
      using shellai_script_run by blast
    moreover have "\<not> debug (with_model a prov)"
      using assms(2) by (simp add: with_model_def)
    ultimately show False
      using that n by simp
  qed
  then have s: "providers (provider a) = Some prov \<longrightarrow>
      \<not> list_ex send_keys (fst (shellai_script a w))"
    using no_run_no_send_keys by blast
  have "\<not> list_ex send_keys (fst (main a w prov key d pre p sp))"
    using n [OF assms(2)] by (rule no_run_no_send_keys)
  with s show ?thesis
    using m [OF assms(2), of key d pre p sp] by blast
qed

theorem http_error_no_injection_witness:
  "wrapper openrouter = W_default \<and> \<not> debug plain_args
   \<and> post (plain_world\<lparr>post := Inr server_error\<rparr>) = Inr server_error
   \<and> status_code server_error \<noteq> 200
   \<and> main plain_args (plain_world\<lparr>post := Inr server_error\<rparr>) openrouter ''secret''
        ''0:0.0'' ''list files'' (''list files:'' @ [NL] @ ''$ '') default_system_prompt
      = ([Post ''https://openrouter.ai/api/v1/chat/completions'' ''secret'' None
            (messages (''list files:'' @ [NL] @ ''$ '') default_system_prompt),
          Print ''Error: 500'', Print ''Internal Server Error''],
         Inl SystemExit)
   \<and> \<not> list_ex send_keys (fst (shellai_script plain_args (plain_world\<lparr>post := Inr server_error\<rparr>)))"
proof -
  have h: "wrapper openrouter = W_default" "\<not> debug plain_args"
    "post (plain_world\<lparr>post := Inr server_error\<rparr>) = Inr server_error"
    "status_code server_error \<noteq> 200"
    by (simp_all add: openrouter_def plain_args_def server_error_def)
  have e: "str_int (status_code server_error) = ''500''" "text server_error = ''Internal Server Error''"
    "url openrouter = ''https://openrouter.ai/api/v1/chat/completions''"
    "verbose plain_args = False" "model plain_args = None"
    by (simp_all add: server_error_def str_int_def str_nat.simps openrouter_def plain_args_def)
  show ?thesis
    using http_error_no_injection [OF h, of "''secret''" "''0:0.0''" "''list files''"
        "''list files:'' @ [NL] @ ''$ ''" default_system_prompt] h e plain_startup(1)
    by simp
qed

text \<open>
  Claim C5, as the code has it. On a missing credential (in either script), on a
  status other than 200 and on a reply in which a key on the way to
  \<open>choices[0].message.content\<close> is missing (\<open>KeyError\<close>), the program prints its
  diagnostic and ends through \<open>quit()\<close>, whose exit status is 0.
\<close>

theorem diagnostic_then_quit:
  "(providers (provider a) = Some prov \<and> environ w (api_key prov) = None
      \<and> display_message w = Inr out \<and> snd (load_system_prompt a w) = Inr sp
      \<and> snd (get_input a w (strip out)) = Inr inp \<and> snd (user_os w) = Inr name \<longrightarrow>
      Print (''need '' @ api_key prov @ '' environment variable'') \<in> set (fst (shellai_script a w))
      \<and> snd (shellai_script a w) = Inl SystemExit \<and> exit_status (shellai_script a w) = 0)
   \<and> (wrapper prov = W_default \<and> \<not> debug a \<and> post w = Inr r \<and> status_code r \<noteq> 200 \<longrightarrow>
      Print (''Error: '' @ str_int (status_code r)) \<in> set (fst (main a w prov key d pre p sp))
      \<and> Print (text r) \<in> set (fst (main a w prov key d pre p sp))
      \<and> snd (main a w prov key d pre p sp) = Inl SystemExit
      \<and> exit_status (main a w prov key d pre p sp) = 0)
   \<and> (wrapper prov = W_default \<and> \<not> debug a \<and> post w = Inr r \<and> status_code r = 200
      \<and> json r = Inr data \<and> message_content data = Inl KeyError \<longrightarrow>
      Print ''unexpected output'' \<in> set (fst (main a w prov key d pre p sp))
      \<and> snd (main a w prov key d pre p sp) = Inl SystemExit
      \<and> exit_status (main a w prov key d pre p sp) = 0)
   \<and> (environ w ''GEMINI_API_KEY'' = None \<and> hostnamectl w = Inr info \<longrightarrow>
      Print ''need GEMINI_API_KEY environment variable'' \<in> set (fst (shellAI_script flags w))
      \<and> snd (shellAI_script flags w) = Inl SystemExit
      \<and> exit_status (shellAI_script flags w) = 0)"
proof (intro conjI impI; (elim conjE)?)
  assume "providers (provider a) = Some prov" "environ w (api_key prov) = None"
    "display_message w = Inr out" "snd (load_system_prompt a w) = Inr sp"
    "snd (get_input a w (strip out)) = Inr inp" "snd (user_os w) = Inr name"
  then have s: "shellai_script a w =
     (CheckOutput (''tmux display-message -p '' @ [SQUOTE] @ ''#S:#I.#P'' @ [SQUOTE])
        # fst (load_system_prompt a w) @ fst (get_input a w (strip out))
        @ (if verbose a then fst (show_flags (with_model a prov) w) else [])
        @ fst (user_os w)
        @ [Print (''need '' @ api_key prov @ '' environment variable'')],
      Inl SystemExit)"
    by (rule shellai_script_missing_key)
  show "Print (''need '' @ api_key prov @ '' environment variable'') \<in> set (fst (shellai_script a w))"
    by (simp add: s)
  show "snd (shellai_script a w) = Inl SystemExit"
    by (simp add: s)
  then show "exit_status (shellai_script a w) = 0"
    by (rule exit_status_SystemExit)
next
  assume "wrapper prov = W_default" "\<not> debug a" "post w = Inr r" "status_code r \<noteq> 200"
  then have m: "main a w prov key d pre p sp =
           ((if verbose a then [Print ''getting response''] else [])
              @ [Post (url prov) key (model a) (messages p sp),
                 Print (''Error: '' @ str_int (status_code r)), Print (text r)],
            Inl SystemExit)"
    by (rule main_http_error)
  show "Print (''Error: '' @ str_int (status_code r)) \<in> set (fst (main a w prov key d pre p sp))"
    by (simp add: m)
  show "Print (text r) \<in> set (fst (main a w prov key d pre p sp))"
    by (simp add: m)
  show "snd (main a w prov key d pre p sp) = Inl SystemExit"
    by (simp add: m)
  then show "exit_status (main a w prov key d pre p sp) = 0"
    by (rule exit_status_SystemExit)
next
  assume "wrapper prov = W_default" "\<not> debug a" "post w = Inr r" "status_code r = 200"
    "json r = Inr data" "message_content data = Inl KeyError"
  then have m: "main a w prov key d pre p sp =
           ((if verbose a then [Print ''getting response''] else [])
              @ Post (url prov) key (model a) (messages p sp) # Print ''unexpected output''
              # fst (print_value data),
            Inl SystemExit)"
    by (rule main_malformed)
  show "Print ''unexpected output'' \<in> set (fst (main a w prov key d pre p sp))"
    by (simp add: m)
  show "snd (main a w prov key d pre p sp) = Inl SystemExit"
    by (simp add: m)
  then show "exit_status (main a w prov key d pre p sp) = 0"
    by (rule exit_status_SystemExit)
next
  assume "environ w ''GEMINI_API_KEY'' = None" "hostnamectl w = Inr info"
  then have g: "shellAI_script flags w =
           ((if ''verbose'' \<in> set flags
             then [PrintNoEnd (ljust 20 ''Flags: ''), Print (join '' '' flags),
                   PrintNoEnd (ljust 20 ''Prompt prefix: ''), Print (join '' '' (arg_input w))]
             else [])
            @ [CheckOutput ''hostnamectl'', Print ''need GEMINI_API_KEY environment variable''],
            Inl SystemExit)"
    by (rule shellAI_script_missing_key)
  show "Print ''need GEMINI_API_KEY environment variable'' \<in> set (fst (shellAI_script flags w))"
    by (simp add: g)
  show "snd (shellAI_script flags w) = Inl SystemExit"
    by (simp add: g)
  then show "exit_status (shellAI_script flags w) = 0"
    by (rule exit_status_SystemExit)
qed

lemma shellai_script_runs_main:
  assumes "providers (provider a) = Some prov"
    and "environ w (api_key prov) = Some key"
    and "display_message w = Inr out"
    and "snd (load_system_prompt a w) = Inr sp"
    and "snd (get_input a w (strip out)) = Inr inp"
    and "snd (user_os w) = Inr name"
    and "snd (get_prefix_input (with_model a prov) w) = Inr pre"
    and "pre @ inp \<noteq> []"
  shows "shellai_script a w =
     (CheckOutput (''tmux display-message -p '' @ [SQUOTE] @ ''#S:#I.#P'' @ [SQUOTE])
        # fst (load_system_prompt a w) @ fst (get_input a w (strip out))
        @ (if verbose a then fst (show_flags (with_model a prov) w) else [])
        @ fst (user_os w) @ fst (get_prefix_input (with_model a prov) w)
        @ fst (main (with_model a prov) w prov key (strip out) pre (pre @ '':'' @ [NL] @ inp)
                 (sp @ ''user os: '' @ name)),
      snd (main (with_model a prov) w prov key (strip out) pre (pre @ '':'' @ [NL] @ inp)
             (sp @ ''user os: '' @ name)))"
  using assms
  by (simp add: shellai_script_def with_model_def check_output_def lift_def Let_def bind_io_Inr
      when_io_def fst_then_io snd_then_io)

lemma message_content_no_choices:
  "message_content (PDict [(''error'', PStr ''rate limit'')]) = Inl KeyError"
  by (simp add: message_content_def getitem_def)

theorem diagnostic_then_quit_witness:
  "providers (provider plain_args) = Some openrouter
   \<and> environ plain_world (api_key openrouter) = None
   \<and> exit_status (shellai_script plain_args plain_world) = 0
   \<and> wrapper openrouter = W_default \<and> \<not> debug plain_args
   \<and> status_code server_error \<noteq> 200
   \<and> exit_status (main plain_args (plain_world\<lparr>post := Inr server_error\<rparr>) openrouter ''secret''
        ''0:0.0'' ''list files'' (''list files:'' @ [NL] @ ''$ '') default_system_prompt) = 0
   \<and> status_code reply_no_choices = 200
   \<and> json reply_no_choices = Inr (PDict [(''error'', PStr ''rate limit'')])
   \<and> message_content (PDict [(''error'', PStr ''rate limit'')]) = Inl KeyError
   \<and> exit_status (main plain_args (plain_world\<lparr>post := Inr reply_no_choices\<rparr>) openrouter ''secret''
        ''0:0.0'' ''list files'' (''list files:'' @ [NL] @ ''$ '') default_system_prompt) = 0
   \<and> environ plain_world ''GEMINI_API_KEY'' = None
   \<and> exit_status (shellAI_script [] plain_world) = 0"
proof -
  have g: "environ plain_world ''GEMINI_API_KEY'' = None"
    "hostnamectl plain_world = Inr ''Static hostname: box''"
    by (simp_all add: plain_world_def)
  have h: "wrapper openrouter = W_default" "\<not> debug plain_args"
    "status_code server_error \<noteq> 200" "status_code reply_no_choices = 200"
    "json reply_no_choices = Inr (PDict [(''error'', PStr ''rate limit'')])"
    by (simp_all add: openrouter_def plain_args_def server_error_def reply_no_choices_def)
  have p: "post (plain_world\<lparr>post := Inr server_error\<rparr>) = Inr server_error"
    "post (plain_world\<lparr>post := Inr reply_no_choices\<rparr>) = Inr reply_no_choices"
    by simp_all
  show ?thesis
    using
      diagnostic_then_quit [where a = plain_args and prov = openrouter and w = plain_world
        and out = "''0:0.0'' @ [NL]" and sp = default_system_prompt and inp = "''$ ''"
        and name = "''Debian''"]
      diagnostic_then_quit [where a = plain_args and prov = openrouter
        and w = "plain_world\<lparr>post := Inr server_error\<rparr>" and r = server_error
        and key = "''secret''" and d = "''0:0.0''" and pre = "''list files''"
        and p = "''list files:'' @ [NL] @ ''$ ''" and sp = default_system_prompt]
      diagnostic_then_quit [where a = plain_args and prov = openrouter
        and w = "plain_world\<lparr>post := Inr reply_no_choices\<rparr>" and r = reply_no_choices
        and key = "''secret''" and d = "''0:0.0''" and pre = "''list files''"
        and p = "''list files:'' @ [NL] @ ''$ ''" and sp = default_system_prompt
        and data = "PDict [(''error'', PStr ''rate limit'')]"]
      diagnostic_then_quit [where w = plain_world and info = "''Static hostname: box''"
        and flags = "[]"]
      plain_startup g h p message_content_no_choices
    by simp
qed

lemma keyed_startup:
  "environ (keyed_world\<lparr>post := x\<rparr>) (api_key openrouter) = Some ''secret''"
  "display_message (keyed_world\<lparr>post := x\<rparr>) = Inr (''0:0.0'' @ [NL])"
  "snd (load_system_prompt plain_args (keyed_world\<lparr>post := x\<rparr>)) = Inr default_system_prompt"
  "snd (get_input plain_args (keyed_world\<lparr>post := x\<rparr>) (strip (''0:0.0'' @ [NL]))) = Inr ''$ ''"
  "snd (user_os (keyed_world\<lparr>post := x\<rparr>)) = Inr ''Debian''"
  "snd (get_prefix_input (with_model plain_args openrouter) (keyed_world\<lparr>post := x\<rparr>))
     = Inr ''list files''"
       apply (simp add: keyed_world_def plain_world_def openrouter_def)
      apply (simp add: keyed_world_def plain_world_def)
     apply (simp add: load_system_prompt_def plain_args_def)
    apply (simp add: get_input_def keyed_world_def plain_world_def)
   apply (simp add: user_os_def read_def lift_def ret_def keyed_world_def plain_world_def
      readlines_def strip_def isspace_def)
  apply (simp add: get_prefix_input_def with_model_def plain_args_def keyed_world_def
      plain_world_def ret_def Let_def)
  done

theorem exit_status_counterexample:
  "exit_status (shellai_script plain_args plain_world) = 0
   \<and> last (fst (shellai_script plain_args plain_world))
       = Print ''need OPENROUTER_API_KEY environment variable''
   \<and> exit_status (shellai_script plain_args (keyed_world\<lparr>post := Inr server_error\<rparr>)) = 0
   \<and> Print ''Error: 500'' \<in> set (fst (shellai_script plain_args (keyed_world\<lparr>post := Inr server_error\<rparr>)))"
proof -
  have s: "shellai_script plain_args plain_world =
     (CheckOutput (''tmux display-message -p '' @ [SQUOTE] @ ''#S:#I.#P'' @ [SQUOTE])
        # fst (load_system_prompt plain_args plain_world)
        @ fst (get_input plain_args plain_world (strip (''0:0.0'' @ [NL])))
        @ (if verbose plain_args then fst (show_flags (with_model plain_args openrouter) plain_world) else [])
        @ fst (user_os plain_world)
        @ [Print (''need '' @ api_key openrouter @ '' environment variable'')],
      Inl SystemExit)"
    using plain_startup by (rule shellai_script_missing_key)
  have m: "main (with_model plain_args openrouter) (keyed_world\<lparr>post := Inr server_error\<rparr>)
             openrouter ''secret'' d pre p sp =
           ([Post (url openrouter) ''secret'' (Some (default_model openrouter)) (messages p sp),
             Print ''Error: 500'', Print ''Internal Server Error''],
            Inl SystemExit)" for d pre p sp
    using main_http_error [of openrouter "with_model plain_args openrouter"
        "keyed_world\<lparr>post := Inr server_error\<rparr>" server_error "''secret''" d pre p sp]
    by (simp add: openrouter_def with_model_def plain_args_def server_error_def str_int_def
        str_nat.simps)
  have t: "shellai_script plain_args (keyed_world\<lparr>post := Inr server_error\<rparr>) =
     (CheckOutput (''tmux display-message -p '' @ [SQUOTE] @ ''#S:#I.#P'' @ [SQUOTE])
        # fst (load_system_prompt plain_args (keyed_world\<lparr>post := Inr server_error\<rparr>))
        @ fst (get_input plain_args (keyed_world\<lparr>post := Inr server_error\<rparr>) (strip (''0:0.0'' @ [NL])))
        @ (if verbose plain_args
           then fst (show_flags (with_model plain_args openrouter) (keyed_world\<lparr>post := Inr server_error\<rparr>))
           else [])
        @ fst (user_os (keyed_world\<lparr>post := Inr server_error\<rparr>))
        @ fst (get_prefix_input (with_model plain_args openrouter) (keyed_world\<lparr>post := Inr server_error\<rparr>))
        @ fst (main (with_model plain_args openrouter) (keyed_world\<lparr>post := Inr server_error\<rparr>)
                 openrouter ''secret'' (strip (''0:0.0'' @ [NL])) ''list files''
                 (''list files'' @ '':'' @ [NL] @ ''$ '') (default_system_prompt @ ''user os: '' @ ''Debian'')),
      snd (main (with_model plain_args openrouter) (keyed_world\<lparr>post := Inr server_error\<rparr>)
                 openrouter ''secret'' (strip (''0:0.0'' @ [NL])) ''list files''
                 (''list files'' @ '':'' @ [NL] @ ''$ '') (default_system_prompt @ ''user os: '' @ ''Debian'')))"
    using plain_startup(1) keyed_startup by (rule shellai_script_runs_main) simp
  show ?thesis
    unfolding s t m by (simp add: exit_status_def openrouter_def)
qed

subsection \<open>Failures of the log files\<close>

lemma isl_then_io: "isl (snd k) \<Longrightarrow> isl (snd (then_io n k))"
  by (cases "snd n") (simp_all add: snd_then_io)

lemma log_fails_after:
  assumes "\<forall>v. isl (snd (append_file w path v))"
  shows "isl (snd (bind_io m (\<lambda>response.
           then_io (pr response) (then_io (append_file w path response) (ret response)))))"
proof (cases "snd m")
  case (Inl e)
  then show ?thesis by (simp add: snd_bind_io)
next
  case (Inr v)
  from assms obtain e where "snd (append_file w path v) = Inl e"
    by (auto simp: isl_def)
  with Inr show ?thesis
    by (cases "snd (pr v)") (simp_all add: snd_bind_io snd_then_io)
qed

lemma get_response_log_fails:
  assumes "log a = Some path" and "\<forall>v. isl (snd (append_file w path v))"
  shows "isl (snd (get_response a w prov key pre p sp))"
  unfolding get_response_def assms(1) option.case
  by (rule isl_then_io) (rule log_fails_after [OF assms(2)])

lemma put_command_log_fails:
  assumes "log_commands a = Some path"
    and "snd (append_file w path (PStr (clean_command c @ [NL]))) = Inl e"
  shows "put_command a w d c = (fst (append_file w path (PStr (clean_command c @ [NL]))), Inl e)"
proof -
  have "then_io (append_file w path (PStr (clean_command c @ [NL]))) k
          = (fst (append_file w path (PStr (clean_command c @ [NL]))), Inl e)" for k :: "unit io"
    using assms(2) by (simp add: then_io_def bind_io_Inl)
  then show ?thesis
    unfolding put_command_def Let_def assms(1) option.case .
qed

text \<open>
  Claim C7, as the code has it. Neither log is written under a handler: when the
  response log cannot be written, \<open>main\<close> ends with the exception and runs no
  \<open>tmux send-keys\<close> command; when the command log cannot be written, \<open>put_command\<close>
  ends with the exception before it sends anything to the pane.
\<close>

theorem log_failure_aborts:
  "(log a = Some path \<and> (\<forall>v. isl (snd (append_file w path v))) \<longrightarrow>
      isl (snd (main a w prov key d pre p sp))
      \<and> \<not> list_ex send_keys (fst (main a w prov key d pre p sp)))
   \<and> (log_commands a = Some path \<and> (\<forall>v. isl (snd (append_file w path v))) \<longrightarrow>
      isl (snd (put_command a w d c))
      \<and> \<not> list_ex send_keys (fst (put_command a w d c)))"
proof (intro conjI impI)
  assume "log a = Some path \<and> (\<forall>v. isl (snd (append_file w path v)))"
  then have "isl (snd (get_response a w prov key pre p sp))"
    using get_response_log_fails by blast
  then obtain e where "snd (get_response a w prov key pre p sp) = Inl e"
    by (auto simp: isl_def)
  then have m: "main a w prov key d pre p sp = (fst (get_response a w prov key pre p sp), Inl e)"
    by (rule main_fetch_fails)
  show "isl (snd (main a w prov key d pre p sp))"
    by (simp add: m)
  show "\<not> list_ex send_keys (fst (main a w prov key d pre p sp))"
    unfolding m fst_conv by (intro no_run_no_send_keys get_response_no_run)
next
  assume l: "log_commands a = Some path \<and> (\<forall>v. isl (snd (append_file w path v)))"
  then obtain e where "snd (append_file w path (PStr (clean_command c @ [NL]))) = Inl e"
    by (auto simp: isl_def)
  with l have m: "put_command a w d c
      = (fst (append_file w path (PStr (clean_command c @ [NL]))), Inl e)"
    using put_command_log_fails by blast
  show "isl (snd (put_command a w d c))"
    by (simp add: m)
  show "\<not> list_ex send_keys (fst (put_command a w d c))"
    unfolding m fst_conv by (intro no_run_no_send_keys append_file_no_run)
qed

lemma readonly_append_file:
  "append_file readonly_world path v = ([OpenAppend path], Inl OSError)"
  by (simp add: append_file_def readonly_world_def)

lemma get_response_default_ok:
  assumes "post w = Inr r" and "status_code r = 200" and "json r = Inr data"
    and "message_content data = Inr v"
  shows "get_response_default a w prov key p sp
           = ([Post (url prov) key (model a) (messages p sp)], Inr v)"
  using assms by (simp add: get_response_default_def bind_io_Inr)

lemma message_content_reply_ls:
  "message_content (PDict [(''choices'',
               PList [PDict [(''message'',
                 PDict [(''content'', PStr (''```bash'' @ [NL] @ ''ls'' @ [NL]))])]])])
   = Inr (PStr (''```bash'' @ [NL] @ ''ls'' @ [NL]))"
  by (simp add: message_content_def getitem_def getitem0_def py_first_def)

lemma readonly_fetch:
  "call_wrapper logging_args readonly_world openrouter key p sp
     = ([Post (url openrouter) key None (messages p sp)],
        Inr (PStr (''```bash'' @ [NL] @ ''ls'' @ [NL])))"
proof -
  have "post readonly_world = Inr reply_ls" "status_code reply_ls = 200"
    "json reply_ls = Inr (PDict [(''choices'',
               PList [PDict [(''message'',
                 PDict [(''content'', PStr (''```bash'' @ [NL] @ ''ls'' @ [NL]))])]])])"
    by (simp_all add: readonly_world_def reply_ls_def)
  then have "get_response_default logging_args readonly_world openrouter key p sp
     = ([Post (url openrouter) key (model logging_args) (messages p sp)],
        Inr (PStr (''```bash'' @ [NL] @ ''ls'' @ [NL])))"
    using message_content_reply_ls by (rule get_response_default_ok)
  then show ?thesis
    by (simp add: call_wrapper_def openrouter_def logging_args_def plain_args_def)
qed

lemma readonly_get_response:
  "get_response logging_args readonly_world openrouter key pre p sp
     = ([Post (url openrouter) key None (messages p sp), OpenAppend ''/var/log/shellai.log''],
        Inl OSError)"
proof -
  have a: "\<not> debug logging_args" "\<not> verbose logging_args"
    "log logging_args = Some ''/var/log/shellai.log''"
    by (simp_all add: logging_args_def plain_args_def)
  show ?thesis
    unfolding get_response_def
    by (simp only: a if_False when_io_def then_io_ret readonly_fetch bind_io_Pair_Inr
        option.case readonly_append_file then_io_Pair_Inl fst_conv snd_conv append.simps)
qed

theorem log_failure_counterexample:
  "main logging_args readonly_world openrouter ''secret'' ''0:0.0'' ''list files''
     (''list files:'' @ [NL] @ ''$ '') default_system_prompt
     = ([Post (url openrouter) ''secret'' None
           (messages (''list files:'' @ [NL] @ ''$ '') default_system_prompt),
         OpenAppend ''/var/log/shellai.log''],
        Inl OSError)
   \<and> put_command command_log_args readonly_world ''0:0.0'' ''ls''
     = ([OpenAppend ''/var/log/commands.log''], Inl OSError)"
proof -
  have g: "snd (get_response logging_args readonly_world openrouter ''secret'' ''list files''
     (''list files:'' @ [NL] @ ''$ '') default_system_prompt) = Inl OSError"
    by (simp only: readonly_get_response snd_conv)
  have m: "main logging_args readonly_world openrouter ''secret'' ''0:0.0'' ''list files''
     (''list files:'' @ [NL] @ ''$ '') default_system_prompt
     = ([Post (url openrouter) ''secret'' None
           (messages (''list files:'' @ [NL] @ ''$ '') default_system_prompt),
         OpenAppend ''/var/log/shellai.log''],
        Inl OSError)"
    using main_fetch_fails [OF g, of "''0:0.0''"] by (simp only: readonly_get_response fst_conv)
  have l: "log_commands command_log_args = Some ''/var/log/commands.log''"
    by (simp add: command_log_args_def)
  have s: "snd (append_file readonly_world ''/var/log/commands.log'' (PStr (clean_command ''ls'' @ [NL])))
             = Inl OSError"
    by (simp only: readonly_append_file snd_conv)
  have c: "put_command command_log_args readonly_world ''0:0.0'' ''ls''
     = ([OpenAppend ''/var/log/commands.log''], Inl OSError)"
    using put_command_log_fails [OF l s, of "''0:0.0''"]
    by (simp only: readonly_append_file fst_conv)
  from m c show ?thesis by (rule conjI)
qed

theorem log_failure_aborts_witness:
  "log logging_args = Some ''/var/log/shellai.log''
   \<and> (\<forall>v. isl (snd (append_file readonly_world ''/var/log/shellai.log'' v)))
   \<and> isl (snd (main logging_args readonly_world openrouter ''secret'' ''0:0.0'' ''list files''
        (''list files:'' @ [NL] @ ''$ '') default_system_prompt))
   \<and> \<not> list_ex send_keys (fst (main logging_args readonly_world openrouter ''secret'' ''0:0.0''
        ''list files'' (''list files:'' @ [NL] @ ''$ '') default_system_prompt))
   \<and> log_commands command_log_args = Some ''/var/log/commands.log''
   \<and> (\<forall>v. isl (snd (append_file readonly_world ''/var/log/commands.log'' v)))
   \<and> isl (snd (put_command command_log_args readonly_world ''0:0.0'' ''ls''))
   \<and> \<not> list_ex send_keys (fst (put_command command_log_args readonly_world ''0:0.0'' ''ls''))"
proof -
  have l: "log logging_args = Some ''/var/log/shellai.log''"
    "log_commands command_log_args = Some ''/var/log/commands.log''"
    by (simp_all add: logging_args_def command_log_args_def)
  have f: "\<forall>v. isl (snd (append_file readonly_world path v))" for path
    by (simp add: readonly_append_file)
  show ?thesis
    using l f [of "''/var/log/shellai.log''"] f [of "''/var/log/commands.log''"]
      log_failure_aborts [where a = logging_args and path = "''/var/log/shellai.log''"
        and w = readonly_world and prov = openrouter and key = "''secret''" and d = "''0:0.0''"
        and pre = "''list files''" and p = "''list files:'' @ [NL] @ ''$ ''"
        and sp = default_system_prompt]
      log_failure_aborts [where a = command_log_args and path = "''/var/log/commands.log''"
        and w = readonly_world and d = "''0:0.0''" and c = "''ls''"]
    by blast
qed

end
